theory Spec2Isabelle
  imports Main "HOL-Library.Signed_Division"
begin

section \<open>Values, diagnostics and responses of the plugin framework\<close>

text \<open>
  The provider is written against the Terraform plugin framework. The framework itself
  is not part of the repository; the few notions of it that the provider's code uses are
  modelled here: attribute values that may be null or unknown, the list of diagnostics
  of a response, and the state of a response.
\<close>

text \<open>\<open>types.String\<close>, \<open>types.Bool\<close>, \<open>types.Int64\<close>, ...: a value, null or unknown.\<close>

datatype 'a attr_value = Null | Unknown | Known 'a

fun IsNull :: "'a attr_value \<Rightarrow> bool" where
  "IsNull Null = True"
| "IsNull _ = False"

fun IsUnknown :: "'a attr_value \<Rightarrow> bool" where
  "IsUnknown Unknown = True"
| "IsUnknown _ = False"

text \<open>The \<open>Value...\<close> accessors return the zero value of the type for null and unknown.\<close>

fun ValueString :: "string attr_value \<Rightarrow> string" where
  "ValueString (Known s) = s"
| "ValueString _ = []"

fun ValueBool :: "bool attr_value \<Rightarrow> bool" where
  "ValueBool (Known b) = b"
| "ValueBool _ = False"

fun ValueInt64 :: "int attr_value \<Rightarrow> int" where
  "ValueInt64 (Known i) = i"
| "ValueInt64 _ = 0"

fun ValueInt32 :: "int attr_value \<Rightarrow> int" where
  "ValueInt32 (Known i) = i"
| "ValueInt32 _ = 0"

text \<open>
  A diagnostic has a severity and a summary. The detail text (a fixed sentence, often
  followed by the message of the underlying error) is not modelled: no decision of the
  code depends on it.
\<close>

datatype severity = SeverityError | SeverityWarning

datatype diagnostic = Diagnostic (Severity: severity) (Summary: string)

type_synonym diagnostics = "diagnostic list"

definition HasError :: "diagnostics \<Rightarrow> bool" where
  "HasError ds = list_ex (\<lambda>d. Severity d = SeverityError) ds"

text \<open>
  A response carries the diagnostics and the state. \<open>State = None\<close> is the state
  nobody has written; \<open>Some m\<close> is the state holding the model \<open>m\<close>.
\<close>

record 'm response =
  Diagnostics :: diagnostics
  State :: "'m option"

definition Append :: "diagnostics \<Rightarrow> 'm response \<Rightarrow> 'm response" where
  "Append ds resp = resp\<lparr>Diagnostics := Diagnostics resp @ ds\<rparr>"

definition AddError :: "string \<Rightarrow> 'm response \<Rightarrow> 'm response" where
  "AddError s resp = resp\<lparr>Diagnostics := Diagnostics resp @ [Diagnostic SeverityError s]\<rparr>"

definition AddWarning :: "string \<Rightarrow> 'm response \<Rightarrow> 'm response" where
  "AddWarning s resp = resp\<lparr>Diagnostics := Diagnostics resp @ [Diagnostic SeverityWarning s]\<rparr>"

text \<open>
  \<open>resp.Diagnostics.Append(resp.State.Set(ctx, &data)...)\<close>: the framework converts the
  model and returns diagnostics \<open>sd\<close>; it replaces the state only when the conversion
  reported no error. The diagnostics \<open>sd\<close> are an input of the model.
\<close>

definition State_Set :: "diagnostics \<Rightarrow> 'm \<Rightarrow> 'm response \<Rightarrow> 'm response" where
  "State_Set sd data resp =
     resp\<lparr>Diagnostics := Diagnostics resp @ sd,
          State := (if HasError sd then State resp else Some data)\<rparr>"

section \<open>The failure resource (failure\_resource.go)\<close>

record FailureResourceModel =
  FailOnCreate :: "bool attr_value"
  FailOnUpdate :: "bool attr_value"
  FailOnDestroy :: "bool attr_value"
  Id :: "string attr_value"

text \<open>
  In every operation, \<open>gd\<close> and \<open>data\<close> are what \<open>req.Plan.Get\<close>,
  \<open>req.State.Get\<close> or \<open>req.Config.Get\<close> returns: its diagnostics and the decoded model.
\<close>

definition FailureResource_Create ::
  "diagnostics \<Rightarrow> FailureResourceModel \<Rightarrow> diagnostics \<Rightarrow>
   FailureResourceModel response \<Rightarrow> FailureResourceModel response" where
  "FailureResource_Create gd data sd resp0 =
     (let resp = Append gd resp0 in
      if HasError (Diagnostics resp) then resp
      else if ValueBool (FailOnCreate data) then AddError ''Create Failed'' resp
      else State_Set sd data resp)"

definition FailureResource_Read ::
  "diagnostics \<Rightarrow> FailureResourceModel \<Rightarrow> diagnostics \<Rightarrow>
   FailureResourceModel response \<Rightarrow> FailureResourceModel response" where
  "FailureResource_Read gd data sd resp0 =
     (let resp = Append gd resp0 in
      if HasError (Diagnostics resp) then resp
      else State_Set sd data resp)"

definition FailureResource_Update ::
  "diagnostics \<Rightarrow> FailureResourceModel \<Rightarrow> diagnostics \<Rightarrow>
   FailureResourceModel response \<Rightarrow> FailureResourceModel response" where
  "FailureResource_Update gd data sd resp0 =
     (let resp = Append gd resp0 in
      if HasError (Diagnostics resp) then resp
      else if ValueBool (FailOnUpdate data) then AddError ''Update Failed'' resp
      else State_Set sd data resp)"

definition FailureResource_Delete ::
  "diagnostics \<Rightarrow> FailureResourceModel \<Rightarrow>
   FailureResourceModel response \<Rightarrow> FailureResourceModel response" where
  "FailureResource_Delete gd data resp0 =
     (let resp = Append gd resp0 in
      if HasError (Diagnostics resp) then resp
      else if ValueBool (FailOnDestroy data) then AddError ''Delete Failed'' resp
      else resp)"

section \<open>What the operations do to their surroundings\<close>

text \<open>
  A data source reads its configuration and answers in its response. What its
  \<open>Read\<close> changes beyond the response is recorded as a trace: a file it creates
  (\<open>os.Create\<close>), bytes it writes to a file (\<open>File.Write\<close>), a process-wide setting
  it changes (\<open>runtime.GOMAXPROCS\<close>). Every \<open>Read\<close> takes the trace so far and
  returns the trace after it. Bytes are characters: a Go string is a sequence of bytes.
\<close>

datatype effect = FileCreate string | FileWrite string string | SetGOMAXPROCS int

text \<open>
  \<open>time.ParseDuration\<close> and the clock are inputs. A context is given by the error it
  reports when it is done before a duration (in nanoseconds) has elapsed, if it is.
\<close>

type_synonym Context = "int \<Rightarrow> string option"

definition sleep :: "Context \<Rightarrow> int \<Rightarrow> string option" where
  "sleep ctx duration = ctx duration"

text \<open>Conversions to the signed machine integers of Go, wrapping around.\<close>

definition to_int32 :: "int \<Rightarrow> int" where
  "to_int32 x = (x + 2 ^ 31) mod 2 ^ 32 - 2 ^ 31"

definition to_int64 :: "int \<Rightarrow> int" where
  "to_int64 x = (x + 2 ^ 63) mod 2 ^ 64 - 2 ^ 63"

section \<open>The sleep data source (sleep\_data\_source.go)\<close>

record SleepDataSourceModel =
  Duration :: "string attr_value"

definition SleepDataSource_Read ::
  "(string \<Rightarrow> string + int) \<Rightarrow> Context \<Rightarrow> diagnostics \<Rightarrow> SleepDataSourceModel \<Rightarrow>
   effect list \<Rightarrow> SleepDataSourceModel response \<Rightarrow>
   effect list \<times> SleepDataSourceModel response" where
  "SleepDataSource_Read ParseDuration ctx gd data fx resp0 =
     (let resp = Append gd resp0 in
      if HasError (Diagnostics resp) then (fx, resp)
      else case ParseDuration (ValueString (SleepDataSourceModel.Duration data)) of
        Inl err \<Rightarrow> (fx, AddError ''Invalid Duration'' resp)
      | Inr duration \<Rightarrow>
          (case sleep ctx duration of
             Some err \<Rightarrow> (fx, AddError ''Sleep Error'' resp)
           | None \<Rightarrow> (fx, resp)))"

section \<open>The sleep resource (sleep\_resource.go)\<close>

text \<open>The id is a \<open>timetypes.RFC3339\<close> value: a string value holding a time.\<close>

record SleepResourceModel =
  Id :: "string attr_value"
  Duration :: "string attr_value"
  UpdateDuration :: "string attr_value"
  DestroyDuration :: "string attr_value"

text \<open>\<open>now\<close> is \<open>time.Now().UTC()\<close>, in RFC 3339 form.\<close>

definition SleepResource_Create ::
  "(string \<Rightarrow> string + int) \<Rightarrow> Context \<Rightarrow> string \<Rightarrow> diagnostics \<Rightarrow> SleepResourceModel \<Rightarrow>
   diagnostics \<Rightarrow> SleepResourceModel response \<Rightarrow> SleepResourceModel response" where
  "SleepResource_Create ParseDuration ctx now gd data sd resp0 =
     (let resp = Append gd resp0 in
      if HasError (Diagnostics resp) then resp
      else case ParseDuration (ValueString (SleepResourceModel.Duration data)) of
        Inl err \<Rightarrow> AddError ''Invalid Duration'' resp
      | Inr duration \<Rightarrow>
          (case sleep ctx duration of
             Some err \<Rightarrow> AddError ''Sleep Failed'' resp
           | None \<Rightarrow> State_Set sd (data\<lparr>SleepResourceModel.Id := Known now\<rparr>) resp))"

definition SleepResource_Read :: "SleepResourceModel response \<Rightarrow> SleepResourceModel response" where
  "SleepResource_Read resp = resp"

text \<open>
  \<open>Update\<close> decodes the plan (\<open>gd\<close>, \<open>plan\<close>) and then the prior state
  (\<open>gd'\<close>, \<open>state\<close>); it sleeps for the \<open>update_duration\<close> of the prior state.
\<close>

definition SleepResource_Update ::
  "(string \<Rightarrow> string + int) \<Rightarrow> Context \<Rightarrow> diagnostics \<Rightarrow> SleepResourceModel \<Rightarrow>
   diagnostics \<Rightarrow> SleepResourceModel \<Rightarrow>
   diagnostics \<Rightarrow> SleepResourceModel response \<Rightarrow> SleepResourceModel response" where
  "SleepResource_Update ParseDuration ctx gd plan gd' state sd resp0 =
     (let resp = Append gd resp0 in
      if HasError (Diagnostics resp) then resp
      else let resp = Append gd' resp in
      if HasError (Diagnostics resp) then resp
      else let durString = ValueString (UpdateDuration state) in
      if durString \<noteq> [] then
        (case ParseDuration durString of
           Inl err \<Rightarrow> AddError ''Invalid Update Duration'' resp
         | Inr duration \<Rightarrow>
             (case sleep ctx duration of
                Some err \<Rightarrow> AddError ''Sleep Failed'' resp
              | None \<Rightarrow> State_Set sd plan resp))
      else State_Set sd plan resp)"

definition SleepResource_Delete ::
  "(string \<Rightarrow> string + int) \<Rightarrow> Context \<Rightarrow> diagnostics \<Rightarrow> SleepResourceModel \<Rightarrow>
   SleepResourceModel response \<Rightarrow> SleepResourceModel response" where
  "SleepResource_Delete ParseDuration ctx gd data resp0 =
     (let resp = Append gd resp0 in
      if HasError (Diagnostics resp) then resp
      else let durString = ValueString (DestroyDuration data) in
      if durString = [] then resp
      else case ParseDuration durString of
        Inl err \<Rightarrow> AddError ''Invalid Duration'' resp
      | Inr duration \<Rightarrow>
          (case sleep ctx duration of
             Some err \<Rightarrow> AddError ''Sleep Failed'' resp
           | None \<Rightarrow> resp))"

section \<open>The failure data source (failure\_data\_source.go)\<close>

text \<open>\<open>FailureDataSourceModel\<close> is a struct with no field: the unit type.\<close>

definition FailureDataSource_Read ::
  "diagnostics \<Rightarrow> unit \<Rightarrow> effect list \<Rightarrow> unit response \<Rightarrow> effect list \<times> unit response" where
  "FailureDataSource_Read gd data fx resp0 =
     (let resp = Append gd resp0 in
      if HasError (Diagnostics resp) then (fx, resp)
      else (fx, AddError ''Failure Data Source Error'' resp))"

section \<open>The TCP probe data source\<close>

record TCPProbeDataSourceModel =
  Host :: "string attr_value"
  Port :: "int attr_value"
  Timeout :: "int attr_value"
  UseIPv4 :: "bool attr_value"
  UseIP6 :: "bool attr_value"
  Reachable :: "bool attr_value"

text \<open>
  \<open>DialContext timeout network host port\<close> is the error of
  \<open>dialer.DialContext(ctx, network, net.JoinHostPort(host, strconv.Itoa(port)))\<close> for a
  dialer with that timeout in seconds, if it fails. The connection is closed again on return.
\<close>

definition TCPProbeDataSource_Read ::
  "(int \<Rightarrow> string \<Rightarrow> string \<Rightarrow> int \<Rightarrow> string option) \<Rightarrow> diagnostics \<Rightarrow>
   TCPProbeDataSourceModel \<Rightarrow> diagnostics \<Rightarrow>
   effect list \<Rightarrow> TCPProbeDataSourceModel response \<Rightarrow>
   effect list \<times> TCPProbeDataSourceModel response" where
  "TCPProbeDataSource_Read DialContext gd data0 sd fx resp0 =
     (let resp = Append gd resp0 in
      if HasError (Diagnostics resp) then (fx, resp)
      else
        let timeout = ValueInt32 (TCPProbeDataSourceModel.Timeout data0);
            timeout = (if timeout \<le> 0 then 5 else timeout);
            network = ''tcp'';
            network = (if ValueBool (UseIPv4 data0) then network @ ''4'' else network);
            network = (if ValueBool (UseIP6 data0) then network @ ''6'' else network);
            data = data0\<lparr>Reachable := Known True\<rparr>
        in case DialContext timeout network (ValueString (Host data)) (ValueInt32 (Port data)) of
             Some err \<Rightarrow>
               (fx, State_Set sd (data\<lparr>Reachable := Known False\<rparr>)
                      (AddError ''TCP Probe Failed'' resp))
           | None \<Rightarrow> (fx, State_Set sd data resp))"

section \<open>The DNS lookup data source\<close>

record DNSLookupDataSourceModel =
  Hostname :: "string attr_value"
  Result :: "string attr_value list attr_value"

text \<open>
  \<open>LookupIP\<close> is \<open>net.LookupIP\<close>, \<open>IP_String\<close> the method \<open>String\<close> of \<open>net.IP\<close>,
  and \<open>ld\<close> the diagnostics of \<open>types.ListValueFrom\<close>. \<open>Read\<close> does not look at the
  diagnostics of \<open>req.Config.Get\<close> before it goes on.
\<close>

definition DNSLookupDataSource_Read ::
  "(string \<Rightarrow> string + 'ip list) \<Rightarrow> ('ip \<Rightarrow> string) \<Rightarrow> diagnostics \<Rightarrow> diagnostics \<Rightarrow>
   DNSLookupDataSourceModel \<Rightarrow> diagnostics \<Rightarrow>
   effect list \<Rightarrow> DNSLookupDataSourceModel response \<Rightarrow>
   effect list \<times> DNSLookupDataSourceModel response" where
  "DNSLookupDataSource_Read LookupIP IP_String ld gd data sd fx resp0 =
     (let resp = Append gd resp0 in
      case LookupIP (ValueString (DNSLookupDataSourceModel.Hostname data)) of
        Inl err \<Rightarrow> (fx, AddError ''Failed to look up IP addresses'' resp)
      | Inr ips \<Rightarrow>
          let res = map IP_String ips;
              elements = map Known res
          in if HasError ld then (fx, Append ld resp)
             else (fx, State_Set sd (data\<lparr>DNSLookupDataSourceModel.Result := Known elements\<rparr>) resp))"

section \<open>The environment variables data source (environment\_variables\_data\_source.go)\<close>

text \<open>The model holds a Go slice and a Go map.\<close>

record EnvDataSourceModel =
  EnvironmentVariables :: "string list"
  Result :: "string \<rightharpoonup> string"

text \<open>\<open>strings.SplitN(env, "=", 2)\<close>: split at the first \<open>=\<close>, if there is one.\<close>

definition SplitN_eq_2 :: "string \<Rightarrow> string list" where
  "SplitN_eq_2 s =
     (if CHR ''='' \<in> set s
      then [takeWhile (\<lambda>c. c \<noteq> CHR ''='') s, tl (dropWhile (\<lambda>c. c \<noteq> CHR ''='') s)]
      else [s])"

text \<open>The loop over the requested names; \<open>LookupEnv\<close> is \<open>os.LookupEnv\<close>.\<close>

fun lookup_loop ::
  "(string \<Rightarrow> string option) \<Rightarrow> string list \<Rightarrow> 'm response \<Rightarrow> (string \<rightharpoonup> string) \<Rightarrow>
   'm response \<times> (string \<rightharpoonup> string)" where
  "lookup_loop LookupEnv [] resp envVars = (resp, envVars)"
| "lookup_loop LookupEnv (v # vs) resp envVars =
     (case LookupEnv v of
        None \<Rightarrow> lookup_loop LookupEnv vs (AddWarning ''Environment Variable Not Found'' resp) envVars
      | Some val \<Rightarrow> lookup_loop LookupEnv vs resp (envVars(v \<mapsto> val)))"

text \<open>The loop over \<open>os.Environ()\<close>.\<close>

fun environ_loop ::
  "string list \<Rightarrow> 'm response \<Rightarrow> (string \<rightharpoonup> string) \<Rightarrow> 'm response \<times> (string \<rightharpoonup> string)" where
  "environ_loop [] resp envVars = (resp, envVars)"
| "environ_loop (env # envs) resp envVars =
     (let splitVars = SplitN_eq_2 env in
      if length splitVars \<noteq> 2
      then environ_loop envs (AddWarning ''Invalid Environment Variable'' resp) envVars
      else environ_loop envs resp (envVars(splitVars ! 0 \<mapsto> splitVars ! 1)))"

definition EnvDataSource_Read ::
  "(string \<Rightarrow> string option) \<Rightarrow> string list \<Rightarrow> diagnostics \<Rightarrow> EnvDataSourceModel \<Rightarrow> diagnostics \<Rightarrow>
   effect list \<Rightarrow> EnvDataSourceModel response \<Rightarrow> effect list \<times> EnvDataSourceModel response" where
  "EnvDataSource_Read LookupEnv Environ gd data sd fx resp0 =
     (let resp = Append gd resp0 in
      if HasError (Diagnostics resp) then (fx, resp)
      else
        let (resp, envVars) =
              (if length (EnvironmentVariables data) > 0
               then lookup_loop LookupEnv (EnvironmentVariables data) resp Map.empty
               else environ_loop Environ resp Map.empty)
        in (fx, State_Set sd (data\<lparr>EnvDataSourceModel.Result := envVars\<rparr>) resp))"

section \<open>The OOM-kill data source (oom\_kill\_data\_source.go)\<close>

record OOMKillDataSourceModel =
  Memory :: "int attr_value"
  BlockSize :: "int attr_value"

text \<open>
  How a run of the process ends: it returns, it panics, or the kernel kills it. A run
  that never ends is the value \<open>None\<close> of the option type around it.
\<close>

datatype 'a outcome = Returned 'a | Panicked | Killed

text \<open>
  What the loop needs to know of the platform: the width of Go's \<open>int\<close>, the largest
  number of bytes the runtime allocates in one piece (\<open>maxAlloc\<close>), and the number of
  bytes the process may hold before it is killed for lack of memory.
\<close>

record platform =
  int_bits :: nat
  max_alloc :: int
  available :: int

definition to_int :: "platform \<Rightarrow> int \<Rightarrow> int" where
  "to_int p x = (x + 2 ^ (int_bits p - 1)) mod 2 ^ int_bits p - 2 ^ (int_bits p - 1)"

text \<open>
  \<open>make([]byte, n)\<close> for a 64-bit \<open>n\<close> panics when \<open>n\<close> does not fit an \<open>int\<close>,
  is negative or exceeds \<open>maxAlloc\<close>. The block is filled with
  \<open>block[j] = byte(j % 256)\<close>; the process does not survive holding more bytes than are
  available.
\<close>

definition makeslice_panics :: "platform \<Rightarrow> int \<Rightarrow> bool" where
  "makeslice_panics p n \<longleftrightarrow> to_int p n \<noteq> n \<or> n < 0 \<or> max_alloc p < n"

definition out_of_memory :: "platform \<Rightarrow> string list \<Rightarrow> int \<Rightarrow> bool" where
  "out_of_memory p memoryHog n \<longleftrightarrow> available p < int (length (concat memoryHog)) + n"

definition make_block :: "int \<Rightarrow> string" where
  "make_block n = map (\<lambda>j. char_of (j mod 256)) [0..<nat n]"

text \<open>
  The allocation loop \<open>for i := 0; ; i++\<close>. With \<open>numBlocksToAllocate = -1\<close> it has no
  exit of its own. \<open>i\<close> and \<open>totalAllocatedBytes\<close> are of type \<open>int\<close>, the other
  numbers of type \<open>int64\<close>; the pause of 100 ms and the log lines are left out.
\<close>

partial_function (option) alloc_loop ::
  "platform \<Rightarrow> int \<Rightarrow> int \<Rightarrow> int \<Rightarrow> int \<Rightarrow> int \<Rightarrow> string list \<Rightarrow>
   (int \<times> string list) outcome option" where
  "alloc_loop p numBlocksToAllocate blockSize lastBlockSize i totalAllocatedBytes memoryHog =
     (if numBlocksToAllocate \<noteq> -1 \<and> i \<ge> numBlocksToAllocate
      then Some (Returned (totalAllocatedBytes, memoryHog))
      else
        let currBlockSize =
              (if numBlocksToAllocate \<noteq> -1 \<and> i = to_int64 (numBlocksToAllocate - 1)
               then lastBlockSize else blockSize)
        in if makeslice_panics p currBlockSize then Some Panicked
           else if out_of_memory p memoryHog currBlockSize then Some Killed
           else
             let block = make_block currBlockSize
             in alloc_loop p numBlocksToAllocate blockSize lastBlockSize (to_int p (i + 1))
                  (to_int p (totalAllocatedBytes + int (length block))) (memoryHog @ [block]))"

text \<open>
  Lines 87 to 139 of \<open>Read\<close>: the number of blocks and the size of the last one, then
  the loop. It returns \<open>totalAllocatedBytes\<close> and \<open>memoryHog\<close>. Go's \<open>/\<close> and \<open>%\<close>
  truncate towards zero (\<open>sdiv\<close>, \<open>smod\<close>).
\<close>

definition OOMKill_allocate :: "platform \<Rightarrow> int \<Rightarrow> int \<Rightarrow> (int \<times> string list) outcome option" where
  "OOMKill_allocate p totalBytes blockSize =
     (let (numBlocksToAllocate, lastBlockSize) =
            (if totalBytes \<noteq> -1 then
               let numBlocksToAllocate = totalBytes sdiv blockSize;
                   remainder = totalBytes smod blockSize
               in if remainder > 0 then (to_int64 (numBlocksToAllocate + 1), remainder)
                  else (numBlocksToAllocate, blockSize)
             else (-1, blockSize))
      in alloc_loop p numBlocksToAllocate blockSize lastBlockSize 0 0 [])"

definition OOMKillDataSource_Read ::
  "platform \<Rightarrow> diagnostics \<Rightarrow> OOMKillDataSourceModel \<Rightarrow> effect list \<Rightarrow>
   OOMKillDataSourceModel response \<Rightarrow>
   (effect list \<times> OOMKillDataSourceModel response) outcome option" where
  "OOMKillDataSource_Read p gd data fx resp0 =
     (let resp = Append gd resp0 in
      if HasError (Diagnostics resp) then Some (Returned (fx, resp))
      else let totalBytes = ValueInt64 (Memory data) in
      if totalBytes \<le> 0 \<and> totalBytes \<noteq> -1
      then Some (Returned (fx, AddError ''Invalid Memory Size'' resp))
      else let blockSize = ValueInt64 (BlockSize data) in
      if blockSize < 0 then Some (Returned (fx, AddError ''Invalid Block Size'' resp))
      else let blockSize = (if blockSize \<le> 0 then 100 * 1024 * 1024 else blockSize) in
      case OOMKill_allocate p totalBytes blockSize of
        None \<Rightarrow> None
      | Some Panicked \<Rightarrow> Some Panicked
      | Some Killed \<Rightarrow> Some Killed
      | Some (Returned (totalAllocatedBytes, memoryHog)) \<Rightarrow> Some (Returned (fx, resp)))"

section \<open>The CPU-hog data source (cpu\_hog\_data\_source.go)\<close>

record CPUHogDataSourceModel =
  NumCores :: "int attr_value"
  Duration :: "string attr_value"

text \<open>
  \<open>NumCPU\<close> is \<open>runtime.NumCPU()\<close>. After the checks \<open>Read\<close> sets \<open>GOMAXPROCS\<close>,
  starts one goroutine per core, waits for the duration or the context, closes the
  channel \<open>quit\<close> and waits for the goroutines. The goroutines touch neither the response
  nor the trace; the model is the sequential part of \<open>Read\<close> and takes it that the wait ends.
\<close>

definition CPUHogDataSource_Read ::
  "int \<Rightarrow> (string \<Rightarrow> string + int) \<Rightarrow> diagnostics \<Rightarrow> CPUHogDataSourceModel \<Rightarrow>
   effect list \<Rightarrow> CPUHogDataSourceModel response \<Rightarrow>
   effect list \<times> CPUHogDataSourceModel response" where
  "CPUHogDataSource_Read NumCPU ParseDuration gd data fx resp0 =
     (let resp = Append gd resp0 in
      if HasError (Diagnostics resp) then (fx, resp)
      else let numCores = ValueInt32 (NumCores data) in
      if numCores < 0 then (fx, AddError ''Invalid Number of Cores'' resp)
      else let numCores = (if numCores = 0 then to_int32 NumCPU else numCores) in
      if numCores > to_int32 NumCPU then (fx, AddError ''Invalid Number of Cores'' resp)
      else case ParseDuration (ValueString (CPUHogDataSourceModel.Duration data)) of
        Inl err \<Rightarrow> (fx, AddError ''Invalid Duration'' resp)
      | Inr duration \<Rightarrow> (fx @ [SetGOMAXPROCS numCores], resp))"

section \<open>The file content data source (file\_content\_data\_source.go)\<close>

record FileContentDataSourceModel =
  Filename :: "string attr_value"
  Content :: "string attr_value"
  ContentBase64 :: "string attr_value"
  ContentSHA256 :: "string attr_value"

text \<open>Errors of the operating system, as far as the code tells them apart.\<close>

datatype os_error = ErrNotExist | ErrOther string

fun IsNotExist :: "os_error \<Rightarrow> bool" where
  "IsNotExist ErrNotExist = True"
| "IsNotExist (ErrOther e) = False"

record FileInfo =
  Name :: string
  Size :: int
  IsDir :: bool

text \<open>
  \<open>hex.EncodeToString\<close> (also \<open>fmt.Sprintf("%x", ...)\<close> of a byte slice): two
  characters of \<open>hextable\<close> for every byte, the high half first.
\<close>

definition hextable :: string where
  "hextable = ''0123456789abcdef''"

definition hex_EncodeToString :: "string \<Rightarrow> string" where
  "hex_EncodeToString src =
     concat (map (\<lambda>v. [hextable ! (of_char v div 16), hextable ! (of_char v mod 16)]) src)"

text \<open>
  \<open>hex.DecodeString\<close>: \<open>fromHexChar\<close> is the table \<open>reverseHexTable\<close>, which knows
  the digits and the letters \<open>a\<close> to \<open>f\<close> in both cases; \<open>None\<close> is an
  \<open>InvalidByteError\<close> or \<open>ErrLength\<close>.
\<close>

definition fromHexChar :: "char \<Rightarrow> nat option" where
  "fromHexChar c =
     (let n = (of_char c :: nat) in
      if 48 \<le> n \<and> n \<le> 57 then Some (n - 48)
      else if 97 \<le> n \<and> n \<le> 102 then Some (n - 97 + 10)
      else if 65 \<le> n \<and> n \<le> 70 then Some (n - 65 + 10)
      else None)"

fun hex_DecodeString :: "string \<Rightarrow> string option" where
  "hex_DecodeString [] = Some []"
| "hex_DecodeString [p] = None"
| "hex_DecodeString (p # q # rest) =
     (case fromHexChar p of
        None \<Rightarrow> None
      | Some a \<Rightarrow>
          (case fromHexChar q of
             None \<Rightarrow> None
           | Some b \<Rightarrow>
               (case hex_DecodeString rest of
                  None \<Rightarrow> None
                | Some bs \<Rightarrow> Some (char_of (a * 16 + b) # bs))))"

text \<open>
  \<open>base64.StdEncoding\<close>: the alphabet of RFC 4648 with padding. Three bytes make the
  24-bit number \<open>val\<close> and four characters; one or two remaining bytes make two or
  three characters and padding.
\<close>

definition encodeStd :: string where
  "encodeStd = ''ABCDEFGHIJKLMNOPQRSTUVWXYZabcdefghijklmnopqrstuvwxyz0123456789+/''"

fun base64_EncodeToString :: "string \<Rightarrow> string" where
  "base64_EncodeToString [] = []"
| "base64_EncodeToString [a] =
     (let val = of_char a * 65536 in
      [encodeStd ! (val div 262144 mod 64), encodeStd ! (val div 4096 mod 64),
       CHR ''='', CHR ''=''])"
| "base64_EncodeToString [a, b] =
     (let val = of_char a * 65536 + of_char b * 256 in
      [encodeStd ! (val div 262144 mod 64), encodeStd ! (val div 4096 mod 64),
       encodeStd ! (val div 64 mod 64), CHR ''=''])"
| "base64_EncodeToString (a # b # c # rest) =
     (let val = of_char a * 65536 + of_char b * 256 + of_char c in
      [encodeStd ! (val div 262144 mod 64), encodeStd ! (val div 4096 mod 64),
       encodeStd ! (val div 64 mod 64), encodeStd ! (val mod 64)]
      @ base64_EncodeToString rest)"

text \<open>
  \<open>base64.StdEncoding.DecodeString\<close> on text without line breaks: \<open>decodeMap\<close> is the
  inverse of the alphabet, padding may only end the text, and \<open>None\<close> is a
  \<open>CorruptInputError\<close>.
\<close>

definition decodeMap :: "char \<Rightarrow> nat option" where
  "decodeMap c = map_of (zip encodeStd [0..<length encodeStd]) c"

fun base64_DecodeString :: "string \<Rightarrow> string option" where
  "base64_DecodeString [] = Some []"
| "base64_DecodeString (c0 # c1 # c2 # c3 # rest) =
     (if rest = [] \<and> c3 = CHR ''='' then
        (if c2 = CHR ''='' then
           (case (decodeMap c0, decodeMap c1) of
              (Some i0, Some i1) \<Rightarrow> Some [char_of ((i0 * 64 + i1) div 16)]
            | _ \<Rightarrow> None)
         else
           (case (decodeMap c0, decodeMap c1, decodeMap c2) of
              (Some i0, Some i1, Some i2) \<Rightarrow>
                (let val = i0 * 4096 + i1 * 64 + i2 in
                 Some [char_of (val div 1024), char_of (val div 4 mod 256)])
            | _ \<Rightarrow> None))
      else
        (case (decodeMap c0, decodeMap c1, decodeMap c2, decodeMap c3) of
           (Some i0, Some i1, Some i2, Some i3) \<Rightarrow>
             (let val = i0 * 262144 + i1 * 4096 + i2 * 64 + i3 in
              case base64_DecodeString rest of
                None \<Rightarrow> None
              | Some bs \<Rightarrow>
                  Some (char_of (val div 65536) # char_of (val div 256 mod 256)
                        # char_of (val mod 256) # bs))
         | _ \<Rightarrow> None))"
| "base64_DecodeString _ = None"

text \<open>
  \<open>Stat\<close> is \<open>os.Stat\<close>, \<open>ReadFile\<close> is \<open>os.ReadFile\<close> and \<open>Sum256\<close> is
  \<open>sha256.Sum256\<close>: inputs of the model.
\<close>

definition FileContentDataSource_Read ::
  "(string \<Rightarrow> os_error + FileInfo) \<Rightarrow> (string \<Rightarrow> string + string) \<Rightarrow> (string \<Rightarrow> string) \<Rightarrow>
   diagnostics \<Rightarrow> FileContentDataSourceModel \<Rightarrow> diagnostics \<Rightarrow>
   effect list \<Rightarrow> FileContentDataSourceModel response \<Rightarrow>
   effect list \<times> FileContentDataSourceModel response" where
  "FileContentDataSource_Read Stat ReadFile Sum256 gd data0 sd fx resp0 =
     (let resp = Append gd resp0 in
      if HasError (Diagnostics resp) then (fx, resp)
      else case Stat (ValueString (Filename data0)) of
        Inl err \<Rightarrow>
          (if IsNotExist err then (fx, AddError ''File Not Found'' resp)
           else (fx, AddError ''Error Reading File'' resp))
      | Inr fileInfo \<Rightarrow>
          if IsDir fileInfo then (fx, AddError ''Invalid File Type'' resp)
          else case ReadFile (ValueString (Filename data0)) of
            Inl err \<Rightarrow> (fx, AddError ''Error Reading File'' resp)
          | Inr content \<Rightarrow>
              let data = data0\<lparr>Content := Known content\<rparr>;
                  hash = Sum256 content;
                  data = data\<lparr>ContentSHA256 := Known (hex_EncodeToString hash)\<rparr>;
                  b64Content = base64_EncodeToString content;
                  data = data\<lparr>ContentBase64 := Known b64Content\<rparr>
              in (fx, State_Set sd data resp))"

section \<open>The plan artifact data source\<close>

record PlanArtifactDataSourceModel =
  FileSize :: "int attr_value"
  FileName :: "string attr_value"
  Id :: "string attr_value"

text \<open>
  What the operating system answers, as inputs of the model: \<open>os.Stat\<close>, \<open>os.Open\<close>
  and \<open>os.Create\<close> by file name; what reading the opened existing file to its end
  gives; for the \<open>i\<close>-th round of the write loop, whether \<open>rand.Read\<close> fails, the
  random bytes it delivers, and whether \<open>Write\<close> fails (after how many bytes); whether
  \<open>Seek\<close> fails and whether reading the new file back fails; and \<open>sha256\<close>.
  A \<open>Write\<close> that reports no error has written all the bytes it was given.
\<close>

record PlanArtifact_os =
  os_Stat :: "string \<Rightarrow> os_error + FileInfo"
  os_Open :: "string \<Rightarrow> os_error option"
  read_existing :: "string \<Rightarrow> string + string"
  os_Create :: "string \<Rightarrow> os_error option"
  rand_err :: "nat \<Rightarrow> string option"
  rand_byte :: "nat \<Rightarrow> nat \<Rightarrow> char"
  write_err :: "nat \<Rightarrow> (nat \<times> string) option"
  seek_err :: "string option"
  read_back_err :: "string option"
  sha256_Sum :: "string \<Rightarrow> string"

text \<open>\<open>filepath.Base\<close> on a system whose path separator is the slash.\<close>

definition filepath_Base :: "string \<Rightarrow> string" where
  "filepath_Base path =
     (if path = [] then ''.''
      else
        let stripped = rev (dropWhile (\<lambda>c. c = CHR ''/'') (rev path));
            element = rev (takeWhile (\<lambda>c. c \<noteq> CHR ''/'') (rev stripped))
        in if element = [] then ''/'' else element)"

text \<open>
  \<open>hashFile\<close>: \<open>contents\<close> is what \<open>io.Copy\<close> reads from the file handle, or its
  error; the hash is printed with \<open>%x\<close>.
\<close>

definition hashFile :: "(string \<Rightarrow> string) \<Rightarrow> string + string \<Rightarrow> string + string" where
  "hashFile Sum256 contents =
     (case contents of
        Inl err \<Rightarrow> Inl err
      | Inr bytes \<Rightarrow> Inr (hex_EncodeToString (Sum256 bytes)))"

definition chunkSize :: int where
  "chunkSize = 64 * 1024"

text \<open>
  The loop \<open>for written < fileSize\<close>, in its \<open>i\<close>-th round. It returns the summary of
  the error it stops with, or \<open>written\<close> and the bytes now in the file; in both cases
  with the trace. \<open>written\<close> never exceeds \<open>fileSize\<close>, so the 64-bit sum cannot
  wrap around.
\<close>

function write_loop ::
  "PlanArtifact_os \<Rightarrow> string \<Rightarrow> int \<Rightarrow> nat \<Rightarrow> int \<Rightarrow> string \<Rightarrow> effect list \<Rightarrow>
   (string \<times> effect list) + (int \<times> string \<times> effect list)" where
  "write_loop os name fileSize i written content fx =
     (if written < fileSize then
        (let bytes = (if fileSize - written < chunkSize then fileSize - written else chunkSize);
             chunk = map (rand_byte os i) [0..<nat bytes]
         in case rand_err os i of
              Some err \<Rightarrow> Inl (''Unable to generate random data'', fx)
            | None \<Rightarrow>
                (case write_err os i of
                   Some (n, err) \<Rightarrow>
                     Inl (''Unable to write to file'', fx @ [FileWrite name (take n chunk)])
                 | None \<Rightarrow>
                     write_loop os name fileSize (Suc i) (written + bytes) (content @ chunk)
                       (fx @ [FileWrite name chunk])))
      else Inr (written, content, fx))"
  by pat_completeness auto
termination
  by (relation "measure (\<lambda>(os, name, fileSize, i, written, content, fx). nat (fileSize - written))")
    (auto simp: chunkSize_def)

declare write_loop.simps [simp del]

text \<open>Lines 317 to 393 of \<open>Read\<close>: the file does not exist yet and is generated.\<close>

definition PlanArtifact_generate ::
  "PlanArtifact_os \<Rightarrow> PlanArtifactDataSourceModel \<Rightarrow> diagnostics \<Rightarrow>
   effect list \<Rightarrow> PlanArtifactDataSourceModel response \<Rightarrow>
   effect list \<times> PlanArtifactDataSourceModel response" where
  "PlanArtifact_generate os data0 sd fx0 resp =
     (let fileSize = ValueInt64 (FileSize data0) in
      if fileSize \<le> 0 then (fx0, AddError ''Invalid File Size'' resp)
      else let name = ValueString (FileName data0) in
      case os_Create os name of
        Some err \<Rightarrow> (fx0, AddError ''Unable to create file'' resp)
      | None \<Rightarrow>
          (case write_loop os name fileSize 0 0 [] (fx0 @ [FileCreate name]) of
             Inl (summary, fx) \<Rightarrow> (fx, AddError summary resp)
           | Inr (written, content, fx) \<Rightarrow>
               let data = data0\<lparr>FileSize := Known written\<rparr>;
                   data = data\<lparr>FileName := Known (filepath_Base name)\<rparr>
               in case seek_err os of
                    Some err \<Rightarrow> (fx, AddError ''Unable to seek file'' resp)
                  | None \<Rightarrow>
                      (case hashFile (sha256_Sum os)
                              (case read_back_err os of Some err \<Rightarrow> Inl err | None \<Rightarrow> Inr content) of
                         Inl err \<Rightarrow> (fx, AddError ''Unable to hash file'' resp)
                       | Inr hash \<Rightarrow>
                           (fx, State_Set sd (data\<lparr>PlanArtifactDataSourceModel.Id := Known hash\<rparr>) resp))))"

definition PlanArtifactDataSource_Read ::
  "PlanArtifact_os \<Rightarrow> diagnostics \<Rightarrow> PlanArtifactDataSourceModel \<Rightarrow> diagnostics \<Rightarrow>
   effect list \<Rightarrow> PlanArtifactDataSourceModel response \<Rightarrow>
   effect list \<times> PlanArtifactDataSourceModel response" where
  "PlanArtifactDataSource_Read os gd data0 sd fx resp0 =
     (let resp = Append gd resp0 in
      if HasError (Diagnostics resp) then (fx, resp)
      else case os_Stat os (ValueString (FileName data0)) of
        Inl err \<Rightarrow>
          if \<not> IsNotExist err then (fx, AddError ''Unable to read existing file'' resp)
          else PlanArtifact_generate os data0 sd fx resp
      | Inr existingFile \<Rightarrow>
          let data = data0\<lparr>FileSize := Known (Size existingFile)\<rparr>;
              data = data\<lparr>FileName := Known (filepath_Base (Name existingFile))\<rparr>
          in case os_Open os (Name existingFile) of
               Some err \<Rightarrow> (fx, AddError ''Unable to open existing file'' resp)
             | None \<Rightarrow>
                 (case hashFile (sha256_Sum os) (read_existing os (Name existingFile)) of
                    Inl err \<Rightarrow> (fx, AddError ''Unable to hash existing file'' resp)
                  | Inr hash \<Rightarrow>
                      (fx, State_Set sd (data\<lparr>PlanArtifactDataSourceModel.Id := Known hash\<rparr>) resp)))"

section \<open>The system information data source (system\_info\_data\_source.go)\<close>

record PlatformInfo =
  Platform :: string
  PlatformFamily :: string
  PlatformVersion :: string
  KernelVersion :: string
  KernelArch :: string

record ProcInfo =
  Uid :: "int attr_value"
  Gid :: "int attr_value"
  PID :: "int attr_value"
  PPID :: "int attr_value"

record DiskInfo =
  Total :: "int attr_value"
  Used :: "int attr_value"
  Free :: "int attr_value"

text \<open>The three fields of type \<open>types.Object\<close> hold a nested structure each.\<close>

record SystemInfoDataSourceModel =
  Hostname :: "string attr_value"
  OS :: "string attr_value"
  PlatformInfo :: "PlatformInfo attr_value"
  NumCPUs :: "int attr_value"
  MemoryTotal :: "int attr_value"
  DiskInfo :: "DiskInfo attr_value"
  ProcInfo :: "ProcInfo attr_value"
  Home :: "string attr_value"
  Path :: "string attr_value"
  WorkingDir :: "string attr_value"

text \<open>
  What the host answers: \<open>host.Info\<close> (host name, operating system and the five
  platform strings), \<open>cpu.Counts\<close>, the total of \<open>mem.VirtualMemory\<close>, \<open>os.Getwd\<close>,
  \<open>disk.Usage\<close> of a path (total, used, free), \<open>os.LookupEnv\<close>, the four process ids and
  \<open>os.UserHomeDir\<close>. Sizes are unsigned 64-bit numbers, which \<open>Read\<close> converts to
  \<open>int64\<close>.
\<close>

record SystemInfo_os =
  host_Info :: "string + (string \<times> string \<times> PlatformInfo)"
  cpu_Counts :: "string + int"
  mem_Total :: "string + int"
  os_Getwd :: "string + string"
  disk_Usage :: "string \<Rightarrow> string + (int \<times> int \<times> int)"
  os_LookupEnv :: "string \<Rightarrow> string option"
  os_Getuid :: int
  os_Getgid :: int
  os_Getpid :: int
  os_Getppid :: int
  os_UserHomeDir :: "string + string"

text \<open>
  \<open>od1\<close>, \<open>od2\<close> and \<open>od3\<close> are the diagnostics of the three calls of
  \<open>types.ObjectValueFrom\<close>.
\<close>

definition SystemInfoDataSource_Read ::
  "SystemInfo_os \<Rightarrow> diagnostics \<Rightarrow> diagnostics \<Rightarrow> diagnostics \<Rightarrow>
   diagnostics \<Rightarrow> SystemInfoDataSourceModel \<Rightarrow> diagnostics \<Rightarrow>
   effect list \<Rightarrow> SystemInfoDataSourceModel response \<Rightarrow>
   effect list \<times> SystemInfoDataSourceModel response" where
  "SystemInfoDataSource_Read os od1 od2 od3 gd data0 sd fx resp0 =
     (let resp = Append gd resp0 in
      if HasError (Diagnostics resp) then (fx, resp)
      else case host_Info os of
        Inl err \<Rightarrow> (fx, AddError ''Unable to get system info'' resp)
      | Inr (hostname, opsys, platform) \<Rightarrow>
      let data = data0\<lparr>SystemInfoDataSourceModel.Hostname := Known hostname\<rparr>;
          data = data\<lparr>OS := Known opsys\<rparr>;
          data = data\<lparr>PlatformInfo := Known platform\<rparr>
      in if HasError od1 then (fx, Append od1 resp)
      else case cpu_Counts os of
        Inl err \<Rightarrow> (fx, AddError ''Unable to get CPU counts'' resp)
      | Inr counts \<Rightarrow>
      let data = data\<lparr>NumCPUs := Known (to_int64 counts)\<rparr> in
      case mem_Total os of
        Inl err \<Rightarrow> (fx, AddError ''Unable to get memory info'' resp)
      | Inr memTotal \<Rightarrow>
      let data = data\<lparr>MemoryTotal := Known (to_int64 memTotal)\<rparr> in
      case os_Getwd os of
        Inl err \<Rightarrow> (fx, AddError ''Unable to get working directory'' resp)
      | Inr workingDir \<Rightarrow>
      let data = data\<lparr>WorkingDir := Known workingDir\<rparr> in
      case disk_Usage os workingDir of
        Inl err \<Rightarrow> (fx, AddError ''Unable to get disk info'' resp)
      | Inr (diskTotal, used, free) \<Rightarrow>
      let diskData = \<lparr>Total = Known (to_int64 diskTotal), Used = Known (to_int64 used),
                       Free = Known (to_int64 free)\<rparr>;
          data = data\<lparr>DiskInfo := Known diskData\<rparr>
      in if HasError od2 then (fx, Append od2 resp)
      else case os_LookupEnv os ''PATH'' of
        None \<Rightarrow> (fx, AddError ''Unable to get PATH'' resp)
      | Some path \<Rightarrow>
      let data = data\<lparr>Path := Known path\<rparr>;
          data = data\<lparr>ProcInfo := Known
                   \<lparr>Uid = Known (to_int64 (os_Getuid os)), Gid = Known (to_int64 (os_Getgid os)),
                    PID = Known (to_int64 (os_Getpid os)), PPID = Known (to_int64 (os_Getppid os))\<rparr>\<rparr>
      in if HasError od3 then (fx, Append od3 resp)
      else case os_UserHomeDir os of
        Inl err \<Rightarrow> (fx, AddError ''Unable to get home directory'' resp)
      | Inr homeDir \<Rightarrow>
          (fx, State_Set sd (data\<lparr>Home := Known homeDir\<rparr>) resp))"

section \<open>The HTTP GET resource (http\_get\_resource.go)\<close>

record HTTPGetResourceModel =
  URL :: "string attr_value"
  Headers :: "(string \<rightharpoonup> string attr_value) attr_value"
  Timeout :: "int attr_value"
  ResponseBody :: "string attr_value"
  ResponseStatusCode :: "int attr_value"
  ResponseHeaders :: "(string \<rightharpoonup> string attr_value) attr_value"

text \<open>
  The response of \<open>http.Client.Do\<close>: the status code, the header, and what
  \<open>io.ReadAll\<close> reads from the body, or its error.
\<close>

record http_Response =
  StatusCode :: int
  Header :: "string \<rightharpoonup> string list"
  Body :: "string + string"

text \<open>The header of the request: the elements of \<open>headers\<close> that are known values.\<close>

definition request_Header :: "(string \<rightharpoonup> string attr_value) attr_value \<Rightarrow> (string \<rightharpoonup> string)" where
  "request_Header headers =
     (if \<not> IsNull headers \<and> \<not> IsUnknown headers then
        (case headers of
           Known elements \<Rightarrow>
             (\<lambda>k. case elements k of
                     Some v \<Rightarrow> if IsNull v \<or> IsUnknown v then None else Some (ValueString v)
                   | None \<Rightarrow> None)
         | _ \<Rightarrow> Map.empty)
      else Map.empty)"

text \<open>\<open>headerElements\<close>: the first value of every header of the response.\<close>

definition headerElements :: "(string \<rightharpoonup> string list) \<Rightarrow> (string \<rightharpoonup> string)" where
  "headerElements header =
     (\<lambda>k. case header k of
             Some v \<Rightarrow> if length v > 0 then Some (v ! 0) else None
           | None \<Rightarrow> None)"

text \<open>
  \<open>NewRequest\<close> is the error of \<open>http.NewRequestWithContext\<close> for a URL, if any;
  \<open>Do timeout url header\<close> is the answer to the request, sent by a client with that
  timeout in seconds; \<open>md\<close> are the diagnostics of \<open>types.MapValueFrom\<close>.
\<close>

definition HTTPGetResource_Create ::
  "(string \<Rightarrow> string option) \<Rightarrow> (int \<Rightarrow> string \<Rightarrow> (string \<rightharpoonup> string) \<Rightarrow> string + http_Response) \<Rightarrow>
   diagnostics \<Rightarrow> diagnostics \<Rightarrow> HTTPGetResourceModel \<Rightarrow> diagnostics \<Rightarrow>
   HTTPGetResourceModel response \<Rightarrow> HTTPGetResourceModel response" where
  "HTTPGetResource_Create NewRequest Do md gd data0 sd resp0 =
     (let resp = Append gd resp0 in
      if HasError (Diagnostics resp) then resp
      else case NewRequest (ValueString (URL data0)) of
        Some err \<Rightarrow> AddError ''HTTP Request Creation Failed'' resp
      | None \<Rightarrow>
          (case Do (ValueInt64 (HTTPGetResourceModel.Timeout data0)) (ValueString (URL data0))
                  (request_Header (Headers data0)) of
             Inl err \<Rightarrow> AddError ''HTTP Request Failed'' resp
           | Inr respHTTP \<Rightarrow>
               let data = data0\<lparr>ResponseStatusCode := Known (StatusCode respHTTP)\<rparr>;
                   headers = Known (map_option Known \<circ> headerElements (Header respHTTP))
               in if HasError md then Append md resp
                  else
                    let data = data\<lparr>ResponseHeaders := headers\<rparr> in
                    case Body respHTTP of
                      Inl err \<Rightarrow> AddError ''HTTP Response Read Failed'' resp
                    | Inr bodyBytes \<Rightarrow>
                        let data = (if length bodyBytes = 0 then data\<lparr>ResponseBody := Null\<rparr>
                                    else data\<lparr>ResponseBody := Known bodyBytes\<rparr>)
                        in State_Set sd data resp))"

definition HTTPGetResource_Read ::
  "diagnostics \<Rightarrow> HTTPGetResourceModel \<Rightarrow> diagnostics \<Rightarrow>
   HTTPGetResourceModel response \<Rightarrow> HTTPGetResourceModel response" where
  "HTTPGetResource_Read gd data sd resp0 =
     (let resp = Append gd resp0 in
      if HasError (Diagnostics resp) then resp
      else State_Set sd data resp)"

definition HTTPGetResource_Update ::
  "diagnostics \<Rightarrow> HTTPGetResourceModel \<Rightarrow> diagnostics \<Rightarrow>
   HTTPGetResourceModel response \<Rightarrow> HTTPGetResourceModel response" where
  "HTTPGetResource_Update gd data sd resp0 =
     (let resp = Append gd resp0 in
      if HasError (Diagnostics resp) then resp
      else State_Set sd data resp)"

definition HTTPGetResource_Delete ::
  "HTTPGetResourceModel response \<Rightarrow> HTTPGetResourceModel response" where
  "HTTPGetResource_Delete resp = resp"

section \<open>The command resource\<close>

record CommandResourceModel =
  Id :: "string attr_value"
  CreateCommand :: "string attr_value list attr_value"
  Stderr :: "string attr_value"
  Stdout :: "string attr_value"
  ExitCode :: "int attr_value"

text \<open>\<open>strings.Join\<close>.\<close>

fun Join :: "string list \<Rightarrow> string \<Rightarrow> string" where
  "Join [] sep = []"
| "Join [x] sep = x"
| "Join (x # y # ys) sep = x @ sep @ Join (y # ys) sep"

text \<open>What \<open>command.Run\<close> gives: its error, the two outputs and the exit code.\<close>

record run_result =
  run_err :: "string option"
  run_stderr :: string
  run_stdout :: string
  run_exit :: int

text \<open>
  \<open>td\<close> and \<open>ed\<close> are the diagnostics of \<open>ToListValue\<close> and of \<open>ElementsAs\<close>;
  \<open>Run\<close> runs the command. For an empty list \<open>cmd[0]\<close> is out of range and \<open>Create\<close>
  panics.
\<close>

definition CommandResource_Create ::
  "(string \<Rightarrow> string) \<Rightarrow> (string list \<Rightarrow> run_result) \<Rightarrow> diagnostics \<Rightarrow> diagnostics \<Rightarrow>
   diagnostics \<Rightarrow> CommandResourceModel \<Rightarrow> diagnostics \<Rightarrow>
   CommandResourceModel response \<Rightarrow> CommandResourceModel response outcome" where
  "CommandResource_Create Sum256 Run td ed gd data0 sd resp0 =
     (let resp = Append gd resp0 in
      if HasError (Diagnostics resp) then Returned resp
      else if HasError td then Returned (Append td resp)
      else case CreateCommand data0 of
        Known parts \<Rightarrow>
          let diags = td @ ed in
          if HasError diags then Returned (Append diags resp)
          else
            let cmd = map ValueString parts;
                idString = Join cmd [CHR 0x00];
                hash = Sum256 idString;
                data = data0\<lparr>CommandResourceModel.Id := Known (hex_EncodeToString hash)\<rparr>
            in if cmd = [] then Panicked
               else
                 let result = Run cmd in
                 (case run_err result of
                    Some err \<Rightarrow> Returned (AddError ''Create Command Failed'' resp)
                  | None \<Rightarrow>
                      let data = data\<lparr>Stderr := Known (run_stderr result)\<rparr>;
                          data = data\<lparr>Stdout := Known (run_stdout result)\<rparr>;
                          data = data\<lparr>ExitCode := Known (to_int32 (run_exit result))\<rparr>
                      in Returned (State_Set sd data resp))
      | _ \<Rightarrow> Returned (State_Set sd data0 resp))"

definition CommandResource_Read :: "CommandResourceModel response \<Rightarrow> CommandResourceModel response" where
  "CommandResource_Read resp = resp"

definition CommandResource_Update :: "CommandResourceModel response \<Rightarrow> CommandResourceModel response" where
  "CommandResource_Update resp = resp"

definition CommandResource_Delete :: "CommandResourceModel response \<Rightarrow> CommandResourceModel response" where
  "CommandResource_Delete resp = resp"

section \<open>Type names, schemas and model structs\<close>

































section \<open>Sample surroundings\<close>

text \<open>
  Concrete surroundings, for evaluating the operations: a 64-bit Linux with a given
  number of bytes for the process; a duration parser that knows \<open>30s\<close>; a context
  that is never done; a peer that refuses connections.
\<close>

definition linux_amd64 :: "int \<Rightarrow> platform" where
  "linux_amd64 bytes = \<lparr>int_bits = 64, max_alloc = 2 ^ 48, available = bytes\<rparr>"

definition parse_30s :: "string \<Rightarrow> string + int" where
  "parse_30s s = (if s = ''30s'' then Inr 30000000000 else Inl ''time: invalid duration'')"

definition background :: Context where
  "background duration = None"

definition refused :: "int \<Rightarrow> string \<Rightarrow> string \<Rightarrow> int \<Rightarrow> string option" where
  "refused timeout network host port = Some ''connect: connection refused''"

text \<open>
  A directory without the file, in which files can be created, and one in which they
  cannot. The random bytes are all \<open>x\<close>, and a one-byte stand-in takes the place of
  SHA-256.
\<close>

definition empty_dir :: PlanArtifact_os where
  "empty_dir =
     \<lparr>os_Stat = (\<lambda>name. Inl ErrNotExist),
      os_Open = (\<lambda>name. Some ErrNotExist),
      read_existing = (\<lambda>name. Inl ''file already closed''),
      os_Create = (\<lambda>name. None),
      rand_err = (\<lambda>i. None),
      rand_byte = (\<lambda>i j. CHR ''x''),
      write_err = (\<lambda>i. None),
      seek_err = None,
      read_back_err = None,
      sha256_Sum = (\<lambda>bytes. [CHR 0x2A])\<rparr>"

definition read_only_dir :: PlanArtifact_os where
  "read_only_dir = empty_dir\<lparr>os_Create := (\<lambda>name. Some (ErrOther ''permission denied''))\<rparr>"

section \<open>Basic facts about diagnostics and responses\<close>

lemma HasError_Nil [simp]: "\<not> HasError []"
  by (simp add: HasError_def)

lemma HasError_append [simp]: "HasError (xs @ ys) \<longleftrightarrow> HasError xs \<or> HasError ys"
  by (simp add: HasError_def list_ex_iff) blast

lemma HasError_error [simp]: "HasError [Diagnostic SeverityError s]"
  by (simp add: HasError_def)

lemma HasError_warning [simp]: "\<not> HasError [Diagnostic SeverityWarning s]"
  by (simp add: HasError_def)

lemma State_Append [simp]: "State (Append ds resp) = State resp"
  by (simp add: Append_def)

lemma Diagnostics_Append [simp]: "Diagnostics (Append ds resp) = Diagnostics resp @ ds"
  by (simp add: Append_def)

lemma State_AddError [simp]: "State (AddError s resp) = State resp"
  by (simp add: AddError_def)

lemma HasError_AddError [simp]: "HasError (Diagnostics (AddError s resp))"
  by (simp add: AddError_def)

lemma State_AddWarning [simp]: "State (AddWarning s resp) = State resp"
  by (simp add: AddWarning_def)

lemma HasError_AddWarning [simp]:
  "HasError (Diagnostics (AddWarning s resp)) \<longleftrightarrow> HasError (Diagnostics resp)"
  by (simp add: AddWarning_def)

lemma State_State_Set [simp]:
  "State (State_Set sd data resp) = (if HasError sd then State resp else Some data)"
  by (simp add: State_Set_def)

lemma HasError_State_Set [simp]:
  "HasError (Diagnostics (State_Set sd data resp)) \<longleftrightarrow> HasError (Diagnostics resp) \<or> HasError sd"
  by (simp add: State_Set_def)

section \<open>The failure resource fails on demand\<close>

text \<open>
  Claim C3, as amended. Let the response hold no error diagnostic beforehand, and let
  the framework decode the request and store the state without an error diagnostic.
  Then \<open>FailureResource.Create\<close> ends with an error diagnostic and the state untouched
  exactly when \<open>fail_on_create\<close> is true, and otherwise stores the planned data;
  \<open>Update\<close> does the same for \<open>fail_on_update\<close>; \<open>Delete\<close> ends with an error
  diagnostic exactly when \<open>fail_on_destroy\<close> is true, and otherwise succeeds. It never
  writes the state.
\<close>

theorem FailureResource_fails_on_demand:
  assumes "\<not> HasError (Diagnostics resp)" and "\<not> HasError gd" and "\<not> HasError sd"
  shows "((HasError (Diagnostics (FailureResource_Create gd data sd resp))
            \<and> State (FailureResource_Create gd data sd resp) = State resp)
          \<longleftrightarrow> ValueBool (FailOnCreate data))
       \<and> (\<not> ValueBool (FailOnCreate data) \<longrightarrow>
            \<not> HasError (Diagnostics (FailureResource_Create gd data sd resp))
            \<and> State (FailureResource_Create gd data sd resp) = Some data)
       \<and> ((HasError (Diagnostics (FailureResource_Update gd data sd resp))
            \<and> State (FailureResource_Update gd data sd resp) = State resp)
          \<longleftrightarrow> ValueBool (FailOnUpdate data))
       \<and> (\<not> ValueBool (FailOnUpdate data) \<longrightarrow>
            \<not> HasError (Diagnostics (FailureResource_Update gd data sd resp))
            \<and> State (FailureResource_Update gd data sd resp) = Some data)
       \<and> (HasError (Diagnostics (FailureResource_Delete gd data resp))
          \<longleftrightarrow> ValueBool (FailOnDestroy data))
       \<and> State (FailureResource_Delete gd data resp) = State resp"
  using assms
  by (simp add: FailureResource_Create_def FailureResource_Update_def
      FailureResource_Delete_def Let_def)

theorem FailureResource_fails_on_demand_witness:
  "HasError (Diagnostics (FailureResource_Create []
      \<lparr>FailOnCreate = Known True, FailOnUpdate = Null, FailOnDestroy = Known True,
       Id = Known ''0123456789''\<rparr> [] \<lparr>Diagnostics = [], State = None\<rparr>))
   \<and> State (FailureResource_Create []
      \<lparr>FailOnCreate = Known True, FailOnUpdate = Null, FailOnDestroy = Known True,
       Id = Known ''0123456789''\<rparr> [] \<lparr>Diagnostics = [], State = None\<rparr>) = None
   \<and> State (FailureResource_Update []
      \<lparr>FailOnCreate = Known True, FailOnUpdate = Null, FailOnDestroy = Known True,
       Id = Known ''0123456789''\<rparr> [] \<lparr>Diagnostics = [], State = None\<rparr>)
     = Some \<lparr>FailOnCreate = Known True, FailOnUpdate = Null, FailOnDestroy = Known True,
       Id = Known ''0123456789''\<rparr>
   \<and> HasError (Diagnostics (FailureResource_Delete []
      \<lparr>FailOnCreate = Known True, FailOnUpdate = Null, FailOnDestroy = Known True,
       Id = Known ''0123456789''\<rparr> \<lparr>Diagnostics = [], State = None\<rparr>))"
  using FailureResource_fails_on_demand
    [of "\<lparr>Diagnostics = [], State = None\<rparr>" "[]" "[]"
        "\<lparr>FailOnCreate = Known True, FailOnUpdate = Null, FailOnDestroy = Known True,
          Id = Known ''0123456789''\<rparr>"]
  by simp

text \<open>
  Claim C3, as stated, fails: when decoding the plan reports an error, \<open>Create\<close>
  returns at once, with an error diagnostic and the state untouched, although
  \<open>fail_on_create\<close> is false; and so does \<open>Delete\<close> when decoding the state reports
  an error.
\<close>

theorem FailureResource_fails_without_demand:
  "\<not> ValueBool (FailOnCreate
       \<lparr>FailOnCreate = Known False, FailOnUpdate = Known False, FailOnDestroy = Known False,
        Id = Known ''0123456789''\<rparr>)
   \<and> HasError (Diagnostics (FailureResource_Create [Diagnostic SeverityError ''Value Conversion Error'']
       \<lparr>FailOnCreate = Known False, FailOnUpdate = Known False, FailOnDestroy = Known False,
        Id = Known ''0123456789''\<rparr> [] \<lparr>Diagnostics = [], State = None\<rparr>))
   \<and> State (FailureResource_Create [Diagnostic SeverityError ''Value Conversion Error'']
       \<lparr>FailOnCreate = Known False, FailOnUpdate = Known False, FailOnDestroy = Known False,
        Id = Known ''0123456789''\<rparr> [] \<lparr>Diagnostics = [], State = None\<rparr>) = None
   \<and> \<not> ValueBool (FailOnDestroy
       \<lparr>FailOnCreate = Known False, FailOnUpdate = Known False, FailOnDestroy = Known False,
        Id = Known ''0123456789''\<rparr>)
   \<and> HasError (Diagnostics (FailureResource_Delete [Diagnostic SeverityError ''Value Conversion Error'']
       \<lparr>FailOnCreate = Known False, FailOnUpdate = Known False, FailOnDestroy = Known False,
        Id = Known ''0123456789''\<rparr> \<lparr>Diagnostics = [], State = None\<rparr>))"
  by (simp add: FailureResource_Create_def FailureResource_Delete_def Let_def)

section \<open>The allocation loop of the OOM-kill data source\<close>

lemma to_int64_id: "- (2 ^ 63) \<le> x \<Longrightarrow> x < 2 ^ 63 \<Longrightarrow> to_int64 x = x"
  by (simp add: to_int64_def)

lemma to_int_id:
  assumes "0 \<le> x" and "x < 2 ^ (int_bits p - 1)" and "0 < int_bits p"
  shows "to_int p x = x"
proof -
  define h :: int where "h = 2 ^ (int_bits p - 1)"
  have "(2::int) ^ int_bits p = 2 ^ Suc (int_bits p - 1)" using assms(3) by simp
  then have w: "(2::int) ^ int_bits p = 2 * h" by (simp add: h_def)
  have "0 \<le> x + h" "x + h < 2 * h" using assms by (simp_all add: h_def)
  then have "(x + h) mod (2 * h) = x + h" by simp
  then show ?thesis unfolding to_int_def w h_def[symmetric] by simp
qed

lemma length_make_block: "0 \<le> n \<Longrightarrow> int (length (make_block n)) = n"
  by (simp add: make_block_def)

lemma alloc_loop_exit:
  "N \<noteq> -1 \<Longrightarrow> N \<le> i \<Longrightarrow> alloc_loop p N b l i tot hog = Some (Returned (tot, hog))"
  by (subst alloc_loop.simps) simp

lemma alloc_loop_step:
  assumes "0 \<le> i" and "i < N" and "N < 2 ^ 63" and "0 \<le> tot"
    and "0 \<le> c" and "tot + c < 2 ^ (int_bits p - 1)" and "i + 1 < 2 ^ (int_bits p - 1)"
    and "0 < int_bits p"
    and "c \<le> max_alloc p" and "int (length (concat hog)) + c \<le> available p"
    and "c = (if i = N - 1 then l else b)"
  shows "alloc_loop p N b l i tot hog =
         alloc_loop p N b l (i + 1) (tot + c) (hog @ [make_block c])"
proof -
  have n1: "to_int64 (N - 1) = N - 1"
    using assms by (intro to_int64_id) auto
  have i1: "to_int p (i + 1) = i + 1"
    using assms by (intro to_int_id) auto
  have t1: "to_int p (tot + c) = tot + c"
    using assms by (intro to_int_id) auto
  have "c < 2 ^ (int_bits p - 1)" using assms(4,6) by linarith
  then have c1: "to_int p c = c"
    using assms by (intro to_int_id) auto
  have np: "\<not> makeslice_panics p c"
    using assms(5,9) c1 by (simp add: makeslice_panics_def)
  have nk: "\<not> out_of_memory p hog c"
    using assms(10) by (simp add: out_of_memory_def)
  have "\<not> (N \<noteq> -1 \<and> N \<le> i)"
    using assms by simp
  moreover have "N \<noteq> -1"
    using assms by simp
  ultimately show ?thesis
    using assms(5,11) n1 i1 t1 np nk
    by (subst alloc_loop.simps) (simp add: Let_def length_make_block)
qed

lemma alloc_loop_finite:
  assumes b: "1 \<le> b" and l: "1 \<le> l" and N: "N < 2 ^ 63" and w: "0 < int_bits p"
    and bmax: "b \<le> max_alloc p \<or> N \<le> 1" and lmax: "l \<le> max_alloc p"
  shows "0 \<le> i \<Longrightarrow> i < N \<Longrightarrow> 0 \<le> tot \<Longrightarrow> int (length (concat hog)) = tot \<Longrightarrow>
         tot + (N - 1 - i) * b + l < 2 ^ (int_bits p - 1) \<Longrightarrow>
         tot + (N - 1 - i) * b + l \<le> available p \<Longrightarrow>
         N < 2 ^ (int_bits p - 1) \<Longrightarrow>
         alloc_loop p N b l i tot hog =
           Some (Returned (tot + (N - 1 - i) * b + l,
                 hog @ replicate (nat (N - 1 - i)) (make_block b) @ [make_block l]))"
proof (induction "nat (N - 1 - i)" arbitrary: i tot hog)
  case 0
  then have i: "i = N - 1" by simp
  have "alloc_loop p N b l i tot hog = alloc_loop p N b l (i + 1) (tot + l) (hog @ [make_block l])"
  proof (rule alloc_loop_step)
    show "tot + l < 2 ^ (int_bits p - 1)" using 0 i by simp
    show "i + 1 < 2 ^ (int_bits p - 1)" using 0 i by simp
    show "int (length (concat hog)) + l \<le> available p" using 0 i by simp
    show "l = (if i = N - 1 then l else b)" using i by simp
  qed (use 0 l N w lmax in auto)
  also have "\<dots> = Some (Returned (tot + l, hog @ [make_block l]))"
    using 0 i by (intro alloc_loop_exit) auto
  finally show ?case using i by simp
next
  case (Suc n)
  then have i: "i < N - 1" by simp
  have nn: "0 \<le> (N - 2 - i) * b" using i b by simp
  have split: "(N - 1 - i) * b = b + (N - 2 - i) * b" by (simp add: algebra_simps)
  have bm: "b \<le> max_alloc p" using bmax i Suc.prems(1) by auto
  have "alloc_loop p N b l i tot hog = alloc_loop p N b l (i + 1) (tot + b) (hog @ [make_block b])"
  proof (rule alloc_loop_step)
    show "tot + b < 2 ^ (int_bits p - 1)" using Suc.prems(5) nn l unfolding split by linarith
    show "i + 1 < 2 ^ (int_bits p - 1)" using Suc.prems(7) i by linarith
    show "int (length (concat hog)) + b \<le> available p"
      using Suc.prems(4,6) nn l unfolding split by linarith
    show "b = (if i = N - 1 then l else b)" using i by simp
  qed (use Suc.prems i b N w bm in auto)
  also have "\<dots> = Some (Returned (tot + b + (N - 1 - (i + 1)) * b + l,
       (hog @ [make_block b]) @ replicate (nat (N - 1 - (i + 1))) (make_block b) @ [make_block l]))"
  proof (rule Suc.hyps(1))
    show "n = nat (N - 1 - (i + 1))" using Suc.hyps(2) by simp
    show "0 \<le> i + 1" using Suc.prems by simp
    show "i + 1 < N" using i by simp
    show "0 \<le> tot + b" using Suc.prems b by simp
    show "int (length (concat (hog @ [make_block b]))) = tot + b"
      using Suc.prems(4) b by (simp add: length_make_block)
    show "tot + b + (N - 1 - (i + 1)) * b + l < 2 ^ (int_bits p - 1)"
      using Suc.prems(5) split by (simp add: algebra_simps)
    show "tot + b + (N - 1 - (i + 1)) * b + l \<le> available p"
      using Suc.prems(6) split by (simp add: algebra_simps)
    show "N < 2 ^ (int_bits p - 1)" using Suc.prems(7) .
  qed
  finally have run: "alloc_loop p N b l i tot hog =
      Some (Returned (tot + b + (N - 1 - (i + 1)) * b + l,
       (hog @ [make_block b]) @ replicate (nat (N - 1 - (i + 1))) (make_block b) @ [make_block l]))" .
  have count: "nat (N - 1 - i) = Suc (nat (N - 1 - (i + 1)))"
    using i by simp
  have sum: "tot + b + (N - 1 - (i + 1)) * b + l = tot + (N - 1 - i) * b + l"
    by (simp add: algebra_simps)
  show ?case
    unfolding run count sum by simp
qed

lemma ceil_div:
  fixes m b :: int
  assumes "1 \<le> b" and "0 \<le> m"
  shows "(m + b - 1) div b = (if m mod b = 0 then m div b else m div b + 1)"
proof -
  define q r where "q = m div b" and "r = m mod b"
  have m: "m = q * b + r" by (simp add: q_def r_def)
  have r: "0 \<le> r" "r < b" using assms by (simp_all add: r_def)
  have "(m + b - 1) div b = (q * b + (r + b - 1)) div b"
    by (simp add: m algebra_simps)
  also have "\<dots> = q + (r + b - 1) div b"
    using assms by simp
  also have "(r + b - 1) div b = (if r = 0 then 0 else 1)"
  proof (cases "r = 0")
    case True
    then show ?thesis using assms by (simp add: div_pos_pos_trivial)
  next
    case False
    then have "r + b - 1 = b + (r - 1)" "0 \<le> r - 1" "r - 1 < b" using r by auto
    then have "(r + b - 1) div b = 1 + (r - 1) div b"
      using assms by (metis add.commute div_add_self2 less_le_not_le zero_less_one order_less_le_trans not_one_le_zero)
    then show ?thesis using False \<open>0 \<le> r - 1\<close> \<open>r - 1 < b\<close> by (simp add: div_pos_pos_trivial)
  qed
  finally show ?thesis by (simp add: q_def r_def)
qed

lemma positive_sdiv: "0 < (m::int) \<Longrightarrow> 0 < b \<Longrightarrow> m sdiv b = m div b"
  by (simp add: signed_divide_int_def)

lemma OOMKill_allocate_closed_form:
  assumes m: "1 \<le> m" "m < 2 ^ 63" and b: "1 \<le> b"
    and fits: "m < 2 ^ (int_bits p - 1)"
    and block: "min m b \<le> max_alloc p" and mem: "m \<le> available p"
  shows "OOMKill_allocate p m b =
     Some (Returned (m, replicate (nat ((m + b - 1) div b - 1)) (make_block b)
              @ [make_block (if m mod b = 0 then b else m mod b)]))"
proof -
  define q r where "q = m div b" and "r = m mod b"
  have mqr: "m = q * b + r" by (simp add: q_def r_def)
  have r: "0 \<le> r" "r < b" using b by (simp_all add: r_def)
  have q0: "0 \<le> q" using m b by (simp add: q_def pos_imp_zdiv_nonneg_iff)
  have sd: "m sdiv b = q" using m b by (simp add: positive_sdiv q_def)
  have sm: "m smod b = r" using m b by (simp add: smod_mod_positive r_def)
  have qb: "q \<le> q * b" using q0 b by (simp add: mult_le_cancel_left1)
  have w: "0 < int_bits p"
  proof (rule ccontr)
    assume "\<not> 0 < int_bits p"
    then have "int_bits p = 0" by simp
    then show False using fits m(1) by simp
  qed
  show ?thesis
  proof (cases "r = 0")
    case True
    have q1: "1 \<le> q" using m mqr True q0 by (cases "q = 0") auto
    have "1 * b \<le> q * b" using q1 b by (intro mult_right_mono) auto
    then have bm: "b \<le> m" using mqr True by simp
    have cd: "(m + b - 1) div b = q" using ceil_div[of b m] b m True by (simp add: q_def r_def)
    have "alloc_loop p q b b 0 0 [] =
        Some (Returned (0 + (q - 1 - 0) * b + b, [] @ replicate (nat (q - 1 - 0)) (make_block b) @ [make_block b]))"
    proof (rule alloc_loop_finite)
      show "q < 2 ^ 63" using qb mqr r m by linarith
      show "q < 2 ^ (int_bits p - 1)" using qb mqr r fits by linarith
      show "0 + (q - 1 - 0) * b + b < 2 ^ (int_bits p - 1)" using mqr True fits by (simp add: algebra_simps)
      show "0 + (q - 1 - 0) * b + b \<le> available p" using mqr True mem by (simp add: algebra_simps)
      show "b \<le> max_alloc p \<or> q \<le> 1" using block bm by simp
      show "b \<le> max_alloc p" using block bm by simp
    qed (use b q1 w in auto)
    moreover have "OOMKill_allocate p m b = alloc_loop p q b b 0 0 []"
      using m(1) sd sm True by (simp add: OOMKill_allocate_def Let_def)
    moreover have "0 + (q - 1 - 0) * b + b = m" using mqr True by (simp add: algebra_simps)
    moreover have "(if m mod b = 0 then b else m mod b) = b" using True by (simp add: r_def)
    moreover have "nat ((m + b - 1) div b - 1) = nat (q - 1 - 0)" using cd by simp
    ultimately show ?thesis by simp
  next
    case False
    then have r1: "1 \<le> r" using r by simp
    have "0 \<le> q * b" using q0 b by simp
    then have rm: "r \<le> m" using mqr by linarith
    have cd: "(m + b - 1) div b = q + 1" using ceil_div[of b m] b m False by (simp add: q_def r_def)
    have ti: "to_int64 (q + 1) = q + 1"
      using q0 qb r1 mqr m by (intro to_int64_id) auto
    have "alloc_loop p (q + 1) b r 0 0 [] =
        Some (Returned (0 + (q + 1 - 1 - 0) * b + r, [] @ replicate (nat (q + 1 - 1 - 0)) (make_block b) @ [make_block r]))"
    proof (rule alloc_loop_finite)
      show "q + 1 < 2 ^ 63" using qb mqr r1 m by linarith
      show "q + 1 < 2 ^ (int_bits p - 1)" using qb mqr r1 fits by linarith
      show "0 + (q + 1 - 1 - 0) * b + r < 2 ^ (int_bits p - 1)" using mqr fits by (simp add: algebra_simps)
      show "0 + (q + 1 - 1 - 0) * b + r \<le> available p" using mqr mem by (simp add: algebra_simps)
      show "r \<le> max_alloc p" using block rm r by (simp add: min_def split: if_splits)
      show "b \<le> max_alloc p \<or> q + 1 \<le> 1"
      proof (cases "b \<le> m")
        case True
        then show ?thesis using block by simp
      next
        case False
        then have "m div b = 0" using m by (simp add: div_pos_pos_trivial)
        then show ?thesis by (simp add: q_def)
      qed
    qed (use b r1 q0 w in auto)
    moreover have "OOMKill_allocate p m b = alloc_loop p (q + 1) b r 0 0 []"
      using m(1) sd sm r1 ti by (simp add: OOMKill_allocate_def Let_def)
    moreover have "0 + (q + 1 - 1 - 0) * b + r = m" using mqr by simp
    moreover have "(if m mod b = 0 then b else m mod b) = r" using False by (simp add: r_def)
    moreover have "nat ((m + b - 1) div b - 1) = nat (q + 1 - 1 - 0)" using cd by simp
    ultimately show ?thesis by simp
  qed
qed


text \<open>
  Claim C8, as amended. Let the memory size \<open>m\<close> and the block size \<open>b\<close> be at
  least 1, let \<open>m\<close> fit a Go \<open>int\<close>, let no block exceed what the runtime allocates
  in one piece (\<open>min m b \<le> maxAlloc\<close>), and let the process be allowed to hold \<open>m\<close>
  bytes. Then the allocation loop ends and returns. It has then allocated \<open>m\<close> bytes
  in \<open>\<lceil>m / b\<rceil>\<close> blocks: every block but the last has \<open>b\<close> bytes, and the last has
  \<open>m mod b\<close> bytes when \<open>b\<close> does not divide \<open>m\<close>, and \<open>b\<close> bytes when it does.
\<close>

theorem OOMKill_allocation_blocks:
  assumes "1 \<le> m" and "m < 2 ^ 63" and "1 \<le> b"
    and "m < 2 ^ (int_bits p - 1)" and "min m b \<le> max_alloc p" and "m \<le> available p"
  shows "\<exists>memoryHog. OOMKill_allocate p m b = Some (Returned (m, memoryHog))
           \<and> int (length memoryHog) = (m + b - 1) div b
           \<and> sum_list (map (\<lambda>block. int (length block)) memoryHog) = m
           \<and> (\<forall>k. k + 1 < length memoryHog \<longrightarrow> int (length (memoryHog ! k)) = b)
           \<and> int (length (last memoryHog)) = (if m mod b = 0 then b else m mod b)"
proof -
  define n where "n = nat ((m + b - 1) div b - 1)"
  define l where "l = (if m mod b = 0 then b else m mod b)"
  define hog where "hog = replicate n (make_block b) @ [make_block l]"
  have run: "OOMKill_allocate p m b = Some (Returned (m, hog))"
    unfolding hog_def n_def l_def using assms by (rule OOMKill_allocate_closed_form)
  have bpos: "0 < b" using assms by simp
  have r: "0 \<le> m mod b" "m mod b < b" using bpos by simp_all
  have l: "1 \<le> l" "l \<le> b"
    using assms r unfolding l_def by (cases "m mod b = 0"; simp)+
  have cd: "(m + b - 1) div b = (if m mod b = 0 then m div b else m div b + 1)"
    using assms by (intro ceil_div) auto
  have q: "0 \<le> m div b" using assms by (simp add: pos_imp_zdiv_nonneg_iff)
  have q1: "m mod b = 0 \<Longrightarrow> 1 \<le> m div b"
  proof -
    assume "m mod b = 0"
    then have "m = m div b * b" by auto
    then show ?thesis using assms q by (cases "m div b = 0") auto
  qed
  have n: "int n = (m + b - 1) div b - 1"
    using cd q q1 by (auto simp: n_def)
  have total: "int n * b + l = m"
  proof (cases "m mod b = 0")
    case True
    then have m: "m div b * b = m" by auto
    have e: "m div b = int n + 1" using n cd True by simp
    have "int n * b + b = (int n + 1) * b" by (simp add: algebra_simps)
    also have "\<dots> = m" unfolding e[symmetric] by (rule m)
    finally show ?thesis using True by (simp add: l_def)
  next
    case False
    have "int n = m div b" using n cd False by simp
    then show ?thesis using False by (simp add: l_def)
  qed
  have len: "int (length hog) = (m + b - 1) div b"
    using n by (simp add: hog_def)
  have sum: "sum_list (map (\<lambda>block. int (length block)) hog) = m"
    using total l assms by (simp add: hog_def sum_list_replicate length_make_block)
  have full: "\<forall>k. k + 1 < length hog \<longrightarrow> int (length (hog ! k)) = b"
    using assms by (simp add: hog_def nth_append length_make_block)
  have last: "int (length (last hog)) = l"
    using l by (simp add: hog_def length_make_block)
  show ?thesis
    using run len sum full last unfolding l_def by blast
qed

theorem OOMKill_allocation_blocks_witness:
  "(1::int) \<le> 10 \<and> (10::int) < 2 ^ 63 \<and> (1::int) \<le> 4
   \<and> (10::int) < 2 ^ (int_bits (linux_amd64 (2 ^ 30)) - 1)
   \<and> min 10 4 \<le> max_alloc (linux_amd64 (2 ^ 30))
   \<and> 10 \<le> available (linux_amd64 (2 ^ 30))
   \<and> (\<exists>memoryHog. OOMKill_allocate (linux_amd64 (2 ^ 30)) 10 4 = Some (Returned (10, memoryHog))
          \<and> int (length memoryHog) = 3
          \<and> sum_list (map (\<lambda>block. int (length block)) memoryHog) = 10
          \<and> int (length (last memoryHog)) = 2)"
  using OOMKill_allocation_blocks[of 10 4 "linux_amd64 (2 ^ 30)"]
  by (auto simp: linux_amd64_def)

text \<open>
  Claim C8, as stated, fails: on a 64-bit Linux, for \<open>m = b = 2\<^sup>6\<^sup>2\<close> the first
  \<open>make\<close> panics, and the loop allocates nothing.
\<close>

theorem OOMKill_allocation_panics:
  "(1::int) \<le> 2 ^ 62 \<and> OOMKill_allocate (linux_amd64 (2 ^ 34)) (2 ^ 62) (2 ^ 62) = Some Panicked"
  by (simp add: OOMKill_allocate_def alloc_loop.simps [of _ 1] to_int64_def
      makeslice_panics_def linux_amd64_def Let_def)

text \<open>With 8 bytes for the process, the third block of \<open>m = 10\<close>, \<open>b = 4\<close> kills it.\<close>

lemma OOMKill_allocation_killed:
  "OOMKill_allocate (linux_amd64 8) 10 4 = Some Killed"
  by (simp add: OOMKill_allocate_def alloc_loop.simps to_int64_def to_int_def
      makeslice_panics_def out_of_memory_def make_block_def linux_amd64_def Let_def)

section \<open>Base64 and hexadecimal text\<close>

lemma length_encodeStd: "length encodeStd = 64"
  by (simp add: encodeStd_def)

lemma distinct_encodeStd: "distinct encodeStd"
  by (simp add: encodeStd_def)

lemma pad_notin_encodeStd: "CHR ''='' \<notin> set encodeStd"
  by (simp add: encodeStd_def)

lemma decodeMap_encodeStd: "k < 64 \<Longrightarrow> decodeMap (encodeStd ! k) = Some k"
  unfolding decodeMap_def
  by (subst map_of_zip_nth) (simp_all add: length_encodeStd distinct_encodeStd)

lemma encodeStd_not_pad: "k < 64 \<Longrightarrow> encodeStd ! k \<noteq> CHR ''=''"
proof
  assume "k < 64" and "encodeStd ! k = CHR ''=''"
  then have "CHR ''='' \<in> set encodeStd"
    using nth_mem[of k encodeStd] by (simp add: length_encodeStd)
  then show False using pad_notin_encodeStd by simp
qed

lemma sextets:
  fixes v :: nat
  assumes "v < 16777216"
  shows "(v div 262144 mod 64) * 262144 + (v div 4096 mod 64) * 4096 + (v div 64 mod 64) * 64 + v mod 64 = v"
proof -
  define x y z where "x = v div 64" and "y = x div 64" and "z = y div 64"
  define r0 r1 r2 where "r0 = v mod 64" and "r1 = x mod 64" and "r2 = y mod 64"
  have y: "v div 4096 = y" by (simp add: x_def y_def div_mult2_eq)
  have z: "v div 262144 = z" by (simp add: x_def y_def z_def div_mult2_eq)
  have "z < 64" using assms unfolding z[symmetric] by (simp add: div_less_iff_less_mult)
  then have z64: "z mod 64 = z" by simp
  have e0: "v = x * 64 + r0" by (simp add: x_def r0_def)
  have e1: "x = y * 64 + r1" by (simp add: y_def r1_def)
  have e2: "y = z * 64 + r2" by (simp add: z_def r2_def)
  have "z * 262144 + r2 * 4096 + r1 * 64 + r0 = v"
    using e0 e1 e2 by linarith
  then show ?thesis
    unfolding y z z64 by (simp add: x_def[symmetric] r0_def r1_def r2_def)
qed

lemma sextets3:
  fixes w :: nat
  assumes "w < 262144"
  shows "(w div 4096 mod 64) * 4096 + (w div 64 mod 64) * 64 + w mod 64 = w"
proof -
  define x y where "x = w div 64" and "y = x div 64"
  define r0 r1 where "r0 = w mod 64" and "r1 = x mod 64"
  have y: "w div 4096 = y" by (simp add: x_def y_def div_mult2_eq)
  have "y < 64" using assms unfolding y[symmetric] by (simp add: div_less_iff_less_mult)
  then have y64: "y mod 64 = y" by simp
  have e0: "w = x * 64 + r0" by (simp add: x_def r0_def)
  have e1: "x = y * 64 + r1" by (simp add: y_def r1_def)
  have "y * 4096 + r1 * 64 + r0 = w"
    using e0 e1 by linarith
  then show ?thesis
    unfolding y y64 by (simp add: x_def[symmetric] r0_def r1_def)
qed

lemma sextets2:
  fixes u :: nat
  assumes "u < 4096"
  shows "(u div 64 mod 64) * 64 + u mod 64 = u"
proof -
  have "u div 64 < 64" using assms by (simp add: div_less_iff_less_mult)
  then show ?thesis by simp
qed

lemma octets:
  fixes A B C :: nat
  assumes A: "A < 256" and B: "B < 256" and C: "C < 256"
  defines "v \<equiv> A * 65536 + B * 256 + C"
  shows "v < 16777216" and "v div 65536 = A" and "v div 256 mod 256 = B" and "v mod 256 = C"
proof -
  show "v < 16777216" using A B C unfolding v_def by linarith
  have v1: "v = (A * 256 + B) * 256 + C" by (simp add: v_def)
  have d1: "v div 256 = A * 256 + B" unfolding v1 using C by simp
  have "v div 65536 = v div 256 div 256" by (simp add: div_mult2_eq)
  also have "\<dots> = A" unfolding d1 using B by simp
  finally show "v div 65536 = A" .
  show "v div 256 mod 256 = B" unfolding d1 using B by simp
  show "v mod 256 = C" unfolding v1 using C by (simp only: mod_mult_self3 mod_less)
qed

lemma decode_full:
  assumes "i0 < 64" and "i1 < 64" and "i2 < 64" and "i3 < 64"
    and "i0 * 262144 + i1 * 4096 + i2 * 64 + i3 = val"
  shows "base64_DecodeString (encodeStd ! i0 # encodeStd ! i1 # encodeStd ! i2 # encodeStd ! i3 # rest) =
         (case base64_DecodeString rest of
            None \<Rightarrow> None
          | Some bs \<Rightarrow> Some (char_of (val div 65536) # char_of (val div 256 mod 256)
                              # char_of (val mod 256) # bs))"
  using assms by (simp add: decodeMap_encodeStd encodeStd_not_pad Let_def)

lemma decode_pad1:
  assumes "i0 < 64" and "i1 < 64" and "i2 < 64"
    and "i0 * 4096 + i1 * 64 + i2 = val"
  shows "base64_DecodeString [encodeStd ! i0, encodeStd ! i1, encodeStd ! i2, CHR ''=''] =
         Some [char_of (val div 1024), char_of (val div 4 mod 256)]"
  using assms by (simp add: decodeMap_encodeStd encodeStd_not_pad Let_def)

lemma decode_pad2:
  assumes "i0 < 64" and "i1 < 64" and "i0 * 64 + i1 = val"
  shows "base64_DecodeString [encodeStd ! i0, encodeStd ! i1, CHR ''='', CHR ''=''] =
         Some [char_of (val div 16)]"
  using assms by (simp add: decodeMap_encodeStd encodeStd_not_pad Let_def)

lemma base64_roundtrip: "base64_DecodeString (base64_EncodeToString bs) = Some bs"
proof (induction bs rule: base64_EncodeToString.induct)
  case 1
  show ?case by simp
next
  case (2 a)
  define v :: nat where "v = of_char a * 65536 + 0 * 256 + 0"
  note o = octets[of "of_char a" 0 0, OF nat_of_char_less_256, folded v_def]
  have enc: "base64_EncodeToString [a] =
      [encodeStd ! (v div 262144 mod 64), encodeStd ! (v div 4096 mod 64), CHR ''='', CHR ''='']"
    by (simp add: v_def Let_def)
  have "v div 4096 < 4096" using o(1) by simp
  from sextets2[OF this] have "v div 4096 div 64 mod 64 * 64 + v div 4096 mod 64 = v div 4096" .
  moreover have "v div 4096 div 64 = v div 262144" by (simp add: div_mult2_eq)
  ultimately have u: "v div 262144 mod 64 * 64 + v div 4096 mod 64 = v div 4096"
    by (simp only:)
  have "base64_DecodeString (base64_EncodeToString [a]) = Some [char_of (v div 4096 div 16)]"
    unfolding enc by (rule decode_pad2[OF _ _ u]) simp_all
  also have "v div 4096 div 16 = v div 65536" by (simp add: div_mult2_eq)
  finally have "base64_DecodeString (base64_EncodeToString [a]) = Some [char_of (v div 65536)]" .
  then show ?case by (simp only: o(2) char_of_char)
next
  case (3 a b)
  define v :: nat where "v = of_char a * 65536 + of_char b * 256 + 0"
  note o = octets[of "of_char a" "of_char b" 0, OF nat_of_char_less_256 nat_of_char_less_256, folded v_def]
  have enc: "base64_EncodeToString [a, b] =
      [encodeStd ! (v div 262144 mod 64), encodeStd ! (v div 4096 mod 64),
       encodeStd ! (v div 64 mod 64), CHR ''='']"
    by (simp add: v_def Let_def)
  have "v div 64 < 262144" using o(1) by simp
  from sextets3[OF this]
  have "v div 64 div 4096 mod 64 * 4096 + v div 64 div 64 mod 64 * 64 + v div 64 mod 64 = v div 64" .
  moreover have "v div 64 div 4096 = v div 262144" by (simp add: div_mult2_eq)
  moreover have "v div 64 div 64 = v div 4096" by (simp add: div_mult2_eq)
  ultimately
  have w: "v div 262144 mod 64 * 4096 + v div 4096 mod 64 * 64 + v div 64 mod 64 = v div 64"
    by (simp only:)
  have "base64_DecodeString (base64_EncodeToString [a, b]) =
        Some [char_of (v div 64 div 1024), char_of (v div 64 div 4 mod 256)]"
    unfolding enc by (rule decode_pad1[OF _ _ _ w]) simp_all
  also have "v div 64 div 1024 = v div 65536" by (simp add: div_mult2_eq)
  also have "v div 64 div 4 = v div 256" by (simp add: div_mult2_eq)
  finally have "base64_DecodeString (base64_EncodeToString [a, b]) =
        Some [char_of (v div 65536), char_of (v div 256 mod 256)]" .
  then show ?case by (simp only: o(2) o(3) char_of_char)
next
  case (4 a b c rest)
  define v :: nat where "v = of_char a * 65536 + of_char b * 256 + of_char c"
  note o = octets[of "of_char a" "of_char b" "of_char c",
      OF nat_of_char_less_256 nat_of_char_less_256 nat_of_char_less_256, folded v_def]
  have enc: "base64_EncodeToString (a # b # c # rest) =
      encodeStd ! (v div 262144 mod 64) # encodeStd ! (v div 4096 mod 64)
      # encodeStd ! (v div 64 mod 64) # encodeStd ! (v mod 64) # base64_EncodeToString rest"
    by (simp add: v_def Let_def)
  have "base64_DecodeString (base64_EncodeToString (a # b # c # rest)) =
        (case base64_DecodeString (base64_EncodeToString rest) of
           None \<Rightarrow> None
         | Some bs \<Rightarrow> Some (char_of (v div 65536) # char_of (v div 256 mod 256)
                              # char_of (v mod 256) # bs))"
    unfolding enc by (rule decode_full[OF _ _ _ _ sextets[OF o(1)]]) simp_all
  then show ?case by (simp only: o(2) o(3) o(4) char_of_char "4.IH" option.case)
qed



lemma hex_EncodeToString_hextable: "set (hex_EncodeToString src) \<subseteq> set hextable"
proof (induction src)
  case Nil
  show ?case by (simp add: hex_EncodeToString_def)
next
  case (Cons v src)
  have len: "length hextable = 16" by (simp add: hextable_def)
  have "(of_char v :: nat) < 256" by simp
  then have "(of_char v :: nat) div 16 < 16" by (simp add: div_less_iff_less_mult)
  then have hi: "hextable ! (of_char v div 16) \<in> set hextable"
    using len by (intro nth_mem) simp
  have lo: "hextable ! (of_char v mod 16) \<in> set hextable"
    using len by (intro nth_mem) simp
  have "hex_EncodeToString (v # src) =
      hextable ! (of_char v div 16) # hextable ! (of_char v mod 16) # hex_EncodeToString src"
    by (simp add: hex_EncodeToString_def)
  then show ?case using hi lo Cons.IH by auto
qed

lemma hex_EncodeToString_lowercase:
  "set (hex_EncodeToString src) \<subseteq> set ''0123456789abcdef''"
  using hex_EncodeToString_hextable[of src] by (simp only: hextable_def)

lemma length_hex_EncodeToString: "length (hex_EncodeToString src) = 2 * length src"
  by (induction src) (simp_all add: hex_EncodeToString_def)

lemma fromHexChar_hextable: "k < 16 \<Longrightarrow> fromHexChar (hextable ! k) = Some k"
proof -
  assume "k < 16"
  then have "k = 0 \<or> k = 1 \<or> k = 2 \<or> k = 3 \<or> k = 4 \<or> k = 5 \<or> k = 6 \<or> k = 7
    \<or> k = 8 \<or> k = 9 \<or> k = 10 \<or> k = 11 \<or> k = 12 \<or> k = 13 \<or> k = 14 \<or> k = 15"
    by arith
  then show ?thesis
    by (elim disjE) (simp_all add: hextable_def fromHexChar_def)
qed

lemma hex_roundtrip: "hex_DecodeString (hex_EncodeToString src) = Some src"
proof (induction src)
  case Nil
  show ?case by (simp add: hex_EncodeToString_def)
next
  case (Cons v src)
  have "(of_char v :: nat) < 256" by simp
  then have hi: "(of_char v :: nat) div 16 < 16" by (simp add: div_less_iff_less_mult)
  have lo: "(of_char v :: nat) mod 16 < 16" by simp
  have enc: "hex_EncodeToString (v # src) =
      hextable ! (of_char v div 16) # hextable ! (of_char v mod 16) # hex_EncodeToString src"
    by (simp add: hex_EncodeToString_def)
  have byte: "char_of ((of_char v :: nat) div 16 * 16 + of_char v mod 16) = v"
    by simp
  show ?case
    unfolding enc using Cons.IH byte
    by (simp add: fromHexChar_hextable[OF hi] fromHexChar_hextable[OF lo])
qed

section \<open>The three views of a file's content\<close>

text \<open>
  Claim C10. When \<open>FileContentDataSource.Read\<close> ends without an error diagnostic, the
  state holds the bytes \<open>content\<close> that \<open>os.ReadFile\<close> returned; decoding
  \<open>content_base64\<close> gives these bytes back; and \<open>content_sha256\<close> is the SHA-256
  digest of these bytes in lowercase hexadecimal: two digits for every byte of the
  digest, all of them in \<open>0123456789abcdef\<close>, and decoding them gives the digest back.
\<close>

theorem FileContent_views_consistent:
  assumes "\<not> HasError (Diagnostics (snd (FileContentDataSource_Read Stat ReadFile Sum256 gd data sd fx resp)))"
  shows "\<exists>d content.
           ReadFile (ValueString (Filename data)) = Inr content
           \<and> State (snd (FileContentDataSource_Read Stat ReadFile Sum256 gd data sd fx resp)) = Some d
           \<and> Content d = Known content
           \<and> base64_DecodeString (ValueString (ContentBase64 d)) = Some content
           \<and> hex_DecodeString (ValueString (ContentSHA256 d)) = Some (Sum256 content)
           \<and> length (ValueString (ContentSHA256 d)) = 2 * length (Sum256 content)
           \<and> set (ValueString (ContentSHA256 d)) \<subseteq> set ''0123456789abcdef''"
proof -
  let ?r = "snd (FileContentDataSource_Read Stat ReadFile Sum256 gd data sd fx resp)"
  from assms obtain content where c: "ReadFile (ValueString (Filename data)) = Inr content"
    by (cases "ReadFile (ValueString (Filename data))")
       (auto simp: FileContentDataSource_Read_def Let_def split: sum.splits if_splits)
  define d where "d = data\<lparr>Content := Known content,
      ContentSHA256 := Known (hex_EncodeToString (Sum256 content)),
      ContentBase64 := Known (base64_EncodeToString content)\<rparr>"
  have "State ?r = Some d"
    using assms c
    by (auto simp: FileContentDataSource_Read_def Let_def d_def split: sum.splits if_splits)
  moreover have "base64_DecodeString (ValueString (ContentBase64 d)) = Some content"
    by (simp add: d_def base64_roundtrip)
  moreover have "hex_DecodeString (ValueString (ContentSHA256 d)) = Some (Sum256 content)"
    by (simp add: d_def hex_roundtrip)
  moreover have "length (ValueString (ContentSHA256 d)) = 2 * length (Sum256 content)"
    by (simp add: d_def length_hex_EncodeToString)
  moreover have "set (ValueString (ContentSHA256 d)) \<subseteq> set ''0123456789abcdef''"
    using hex_EncodeToString_lowercase[of "Sum256 content"] by (simp add: d_def)
  ultimately show ?thesis
    using c by (intro exI[of _ d] exI[of _ content]) (simp add: d_def)
qed

theorem FileContent_views_consistent_witness:
  "\<not> HasError (Diagnostics (snd (FileContentDataSource_Read
       (\<lambda>name. Inr \<lparr>Name = ''a.txt'', Size = 2, IsDir = False\<rparr>) (\<lambda>name. Inr ''hi'') (\<lambda>bytes. [CHR 0xAB, CHR 0x01])
       [] \<lparr>Filename = Known ''a.txt'', Content = Null, ContentBase64 = Null, ContentSHA256 = Null\<rparr>
       [] [] \<lparr>Diagnostics = [], State = None\<rparr>)))
   \<and> State (snd (FileContentDataSource_Read
       (\<lambda>name. Inr \<lparr>Name = ''a.txt'', Size = 2, IsDir = False\<rparr>) (\<lambda>name. Inr ''hi'') (\<lambda>bytes. [CHR 0xAB, CHR 0x01])
       [] \<lparr>Filename = Known ''a.txt'', Content = Null, ContentBase64 = Null, ContentSHA256 = Null\<rparr>
       [] [] \<lparr>Diagnostics = [], State = None\<rparr>))
     = Some \<lparr>Filename = Known ''a.txt'', Content = Known ''hi'', ContentBase64 = Known ''aGk='',
             ContentSHA256 = Known ''ab01''\<rparr>
   \<and> base64_DecodeString ''aGk='' = Some ''hi''
   \<and> hex_DecodeString ''ab01'' = Some [CHR 0xAB, CHR 0x01]"
  using FileContent_views_consistent
    [of "\<lambda>name. Inr \<lparr>Name = ''a.txt'', Size = 2, IsDir = False\<rparr>" "\<lambda>name. Inr ''hi''"
        "\<lambda>bytes. [CHR 0xAB, CHR 0x01]" "[]"
        "\<lparr>Filename = Known ''a.txt'', Content = Null, ContentBase64 = Null, ContentSHA256 = Null\<rparr>"
        "[]" "[]" "\<lparr>Diagnostics = [], State = None\<rparr>"]
  by (auto simp: FileContentDataSource_Read_def Let_def hex_EncodeToString_def hextable_def
      encodeStd_def)

section \<open>Type names\<close>



section \<open>Flat and nested schemas\<close>



section \<open>The write loop of the plan artifact data source\<close>

lemma write_loop_ok:
  "\<forall>i. rand_err os i = None \<Longrightarrow> \<forall>i. write_err os i = None \<Longrightarrow> written \<le> fileSize \<Longrightarrow>
    \<exists>chunks. write_loop os name fileSize i written content fx =
        Inr (fileSize, content @ concat chunks, fx @ map (FileWrite name) chunks)
      \<and> int (length (concat chunks)) = fileSize - written
      \<and> (\<forall>chunk \<in> set chunks. 1 \<le> length chunk \<and> length chunk \<le> 65536)"
proof (induction os name fileSize i written content fx rule: write_loop.induct)
  case (1 os name fileSize i written content fx)
  show ?case
  proof (cases "written < fileSize")
    case False
    then have e: "written = fileSize" using "1.prems" by simp
    have "write_loop os name fileSize i written content fx =
        Inr (fileSize, content @ concat [], fx @ map (FileWrite name) [])"
      unfolding e by (subst write_loop.simps) simp
    then show ?thesis using e by (intro exI[of _ "[]"]) simp
  next
    case True
    define bytes where "bytes = (if fileSize - written < chunkSize then fileSize - written else chunkSize)"
    define chunk where "chunk = map (rand_byte os i) [0..<nat bytes]"
    have b: "1 \<le> bytes" "bytes \<le> 65536" "written + bytes \<le> fileSize"
      using True by (auto simp: bytes_def chunkSize_def)
    have len: "int (length chunk) = bytes" using b by (simp add: chunk_def)
    have r: "rand_err os i = None" and w: "write_err os i = None"
      using "1.prems" by simp_all
    have step: "write_loop os name fileSize i written content fx =
        write_loop os name fileSize (Suc i) (written + bytes) (content @ chunk)
          (fx @ [FileWrite name chunk])"
      using True r w by (subst write_loop.simps) (simp add: Let_def bytes_def chunk_def)
    from "1.IH"[OF True bytes_def chunk_def r w "1.prems"(1,2) b(3)]
    obtain chunks where c:
      "write_loop os name fileSize (Suc i) (written + bytes) (content @ chunk)
          (fx @ [FileWrite name chunk]) =
        Inr (fileSize, (content @ chunk) @ concat chunks,
             (fx @ [FileWrite name chunk]) @ map (FileWrite name) chunks)"
      "int (length (concat chunks)) = fileSize - (written + bytes)"
      "\<forall>chunk \<in> set chunks. 1 \<le> length chunk \<and> length chunk \<le> 65536"
      by blast
    have "1 \<le> length chunk \<and> length chunk \<le> 65536" using len b by linarith
    then show ?thesis
      using step c len by (intro exI[of _ "chunk # chunks"]) simp
  qed
qed

lemma write_loop_trace:
  "\<exists>chunks. (case write_loop os name fileSize i written content fx of
       Inl (summary, fx') \<Rightarrow> fx' | Inr (written', content', fx') \<Rightarrow> fx')
     = fx @ map (FileWrite name) chunks"
proof (induction os name fileSize i written content fx rule: write_loop.induct)
  case (1 os name fileSize i written content fx)
  define bytes where "bytes = (if fileSize - written < chunkSize then fileSize - written else chunkSize)"
  define chunk where "chunk = map (rand_byte os i) [0..<nat bytes]"
  consider (finished) "\<not> written < fileSize"
    | (randfail) err where "written < fileSize" "rand_err os i = Some err"
    | (writefail) n err where "written < fileSize" "rand_err os i = None" "write_err os i = Some (n, err)"
    | (onward) "written < fileSize" "rand_err os i = None" "write_err os i = None"
    by (cases "rand_err os i"; cases "write_err os i") auto
  then show ?case
  proof cases
    case finished
    then have "write_loop os name fileSize i written content fx = Inr (written, content, fx)"
      by (subst write_loop.simps) simp
    then show ?thesis by (intro exI[of _ "[]"]) simp
  next
    case randfail
    then have "write_loop os name fileSize i written content fx =
        Inl (''Unable to generate random data'', fx)"
      by (subst write_loop.simps) (simp add: Let_def)
    then show ?thesis by (intro exI[of _ "[]"]) simp
  next
    case writefail
    then have "write_loop os name fileSize i written content fx =
        Inl (''Unable to write to file'', fx @ [FileWrite name (take n chunk)])"
      by (subst write_loop.simps) (simp add: Let_def bytes_def chunk_def)
    then show ?thesis by (intro exI[of _ "[take n chunk]"]) simp
  next
    case onward
    then have step: "write_loop os name fileSize i written content fx =
        write_loop os name fileSize (Suc i) (written + bytes) (content @ chunk)
          (fx @ [FileWrite name chunk])"
      by (subst write_loop.simps) (simp add: Let_def bytes_def chunk_def)
    from "1.IH"[OF onward(1) bytes_def chunk_def onward(2,3)]
    obtain chunks where
      "(case write_loop os name fileSize (Suc i) (written + bytes) (content @ chunk)
          (fx @ [FileWrite name chunk]) of
         Inl (summary, fx') \<Rightarrow> fx' | Inr (written', content', fx') \<Rightarrow> fx')
       = (fx @ [FileWrite name chunk]) @ map (FileWrite name) chunks"
      by blast
    then show ?thesis
      unfolding step by (intro exI[of _ "chunk # chunks"]) simp
  qed
qed


lemma PlanArtifact_generate_ok:
  assumes "\<not> HasError sd"
    and "ValueInt64 (FileSize data) = n" and "0 < n"
    and "os_Create os (ValueString (FileName data)) = None"
    and "\<forall>i. rand_err os i = None" and "\<forall>i. write_err os i = None"
    and "seek_err os = None" and "read_back_err os = None"
  shows "\<exists>chunks.
      PlanArtifact_generate os data sd fx resp =
        (fx @ FileCreate (ValueString (FileName data)) # map (FileWrite (ValueString (FileName data))) chunks,
         State_Set sd
           (data\<lparr>FileSize := Known n,
                 FileName := Known (filepath_Base (ValueString (FileName data))),
                 PlanArtifactDataSourceModel.Id := Known (hex_EncodeToString (sha256_Sum os (concat chunks)))\<rparr>)
           resp)
      \<and> int (length (concat chunks)) = n
      \<and> (\<forall>chunk \<in> set chunks. 1 \<le> length chunk \<and> length chunk \<le> 65536)"
proof -
  let ?name = "ValueString (FileName data)"
  from write_loop_ok[OF assms(5,6), of 0 n ?name 0 "[]" "fx @ [FileCreate ?name]"] assms(3)
  obtain chunks where c:
    "write_loop os ?name n 0 0 [] (fx @ [FileCreate ?name]) =
       Inr (n, [] @ concat chunks, (fx @ [FileCreate ?name]) @ map (FileWrite ?name) chunks)"
    "int (length (concat chunks)) = n - 0"
    "\<forall>chunk \<in> set chunks. 1 \<le> length chunk \<and> length chunk \<le> 65536"
    by auto
  have "PlanArtifact_generate os data sd fx resp =
        (fx @ FileCreate ?name # map (FileWrite ?name) chunks,
         State_Set sd
           (data\<lparr>FileSize := Known n, FileName := Known (filepath_Base ?name),
                 PlanArtifactDataSourceModel.Id := Known (hex_EncodeToString (sha256_Sum os (concat chunks)))\<rparr>)
           resp)"
    using assms(2,3,4,7,8) c(1)
    by (simp add: PlanArtifact_generate_def Let_def hashFile_def)
  then show ?thesis using c(2,3) by (intro exI[of _ chunks]) simp
qed

text \<open>
  Claim C9, as amended. Let the response hold no error diagnostic beforehand, let the
  framework decode the configuration and store the state without an error diagnostic,
  let the named file not exist, let \<open>file_size\<close> be \<open>n > 0\<close>, and let nothing fail:
  neither \<open>os.Create\<close>, nor \<open>rand.Read\<close> or \<open>Write\<close> in any round, nor \<open>Seek\<close>,
  nor reading the file back for the hash. Then \<open>Read\<close> creates the file and writes
  it in chunks of at least 1 and at most 65536 bytes, \<open>n\<close> bytes in all; it ends
  without an error diagnostic; and the state holds \<open>file_size = n\<close> and as \<open>id\<close> the
  hash of the bytes written. The loop ends for every input: \<open>write_loop\<close> is a total
  function.
\<close>

theorem PlanArtifact_writes_file_size:
  assumes "\<not> HasError (Diagnostics resp)" and "\<not> HasError gd" and "\<not> HasError sd"
    and "os_Stat os (ValueString (FileName data)) = Inl err" and "IsNotExist err"
    and "ValueInt64 (FileSize data) = n" and "0 < n"
    and "os_Create os (ValueString (FileName data)) = None"
    and "\<forall>i. rand_err os i = None" and "\<forall>i. write_err os i = None"
    and "seek_err os = None" and "read_back_err os = None"
  shows "\<exists>chunks d.
      fst (PlanArtifactDataSource_Read os gd data sd fx resp) =
        fx @ FileCreate (ValueString (FileName data))
           # map (FileWrite (ValueString (FileName data))) chunks
      \<and> int (length (concat chunks)) = n
      \<and> (\<forall>chunk \<in> set chunks. 1 \<le> length chunk \<and> length chunk \<le> 65536)
      \<and> \<not> HasError (Diagnostics (snd (PlanArtifactDataSource_Read os gd data sd fx resp)))
      \<and> State (snd (PlanArtifactDataSource_Read os gd data sd fx resp)) = Some d
      \<and> FileSize d = Known n
      \<and> PlanArtifactDataSourceModel.Id d = Known (hex_EncodeToString (sha256_Sum os (concat chunks)))"
proof -
  from PlanArtifact_generate_ok[OF assms(3) assms(6-12), of fx "Append gd resp"]
  obtain chunks where g:
    "PlanArtifact_generate os data sd fx (Append gd resp) =
        (fx @ FileCreate (ValueString (FileName data)) # map (FileWrite (ValueString (FileName data))) chunks,
         State_Set sd
           (data\<lparr>FileSize := Known n,
                 FileName := Known (filepath_Base (ValueString (FileName data))),
                 PlanArtifactDataSourceModel.Id := Known (hex_EncodeToString (sha256_Sum os (concat chunks)))\<rparr>)
           (Append gd resp))"
    "int (length (concat chunks)) = n"
    "\<forall>chunk \<in> set chunks. 1 \<le> length chunk \<and> length chunk \<le> 65536"
    by blast
  have r: "PlanArtifactDataSource_Read os gd data sd fx resp =
      PlanArtifact_generate os data sd fx (Append gd resp)"
    using assms(1,2,4,5) by (simp add: PlanArtifactDataSource_Read_def Let_def)
  show ?thesis
    unfolding r g(1) using g(2,3) assms(1,2,3)
    by (intro exI[of _ chunks]
          exI[of _ "data\<lparr>FileSize := Known n,
                 FileName := Known (filepath_Base (ValueString (FileName data))),
                 PlanArtifactDataSourceModel.Id := Known (hex_EncodeToString (sha256_Sum os (concat chunks)))\<rparr>"])
       simp
qed

theorem PlanArtifact_writes_file_size_witness:
  "fst (PlanArtifactDataSource_Read empty_dir []
       \<lparr>FileSize = Known 3, FileName = Known ''artifact'', Id = Null\<rparr> [] []
       \<lparr>Diagnostics = [], State = None\<rparr>)
     = [FileCreate ''artifact'', FileWrite ''artifact'' ''xxx'']
   \<and> State (snd (PlanArtifactDataSource_Read empty_dir []
       \<lparr>FileSize = Known 3, FileName = Known ''artifact'', Id = Null\<rparr> [] []
       \<lparr>Diagnostics = [], State = None\<rparr>))
     = Some \<lparr>FileSize = Known 3, FileName = Known ''artifact'', Id = Known ''2a''\<rparr>"
proof -
  have "\<exists>chunks d.
      fst (PlanArtifactDataSource_Read empty_dir []
             \<lparr>FileSize = Known 3, FileName = Known ''artifact'', Id = Null\<rparr> [] []
             \<lparr>Diagnostics = [], State = None\<rparr>) =
        [] @ FileCreate ''artifact'' # map (FileWrite ''artifact'') chunks
      \<and> int (length (concat chunks)) = 3"
    using PlanArtifact_writes_file_size
      [of "\<lparr>Diagnostics = [], State = None\<rparr>" "[]" "[]" empty_dir
          "\<lparr>FileSize = Known 3, FileName = Known ''artifact'', Id = Null\<rparr>"
          ErrNotExist 3 "[]"]
    by (simp add: empty_dir_def) blast
  moreover have "[0..<3] = [0, 1, 2]"
    by code_simp
  ultimately show ?thesis
    by (simp add: PlanArtifactDataSource_Read_def PlanArtifact_generate_def write_loop.simps
        empty_dir_def chunkSize_def hashFile_def hex_EncodeToString_def hextable_def
        filepath_Base_def Let_def)
qed

text \<open>
  Claim C9, as stated, fails: the file does not exist, \<open>file_size\<close> is 3 and no write
  fails, but \<open>os.Create\<close> fails; then nothing is written and no \<open>file_size\<close> is
  stored.
\<close>

theorem PlanArtifact_create_fails:
  "os_Stat read_only_dir ''artifact'' = Inl ErrNotExist
   \<and> write_err read_only_dir 0 = None
   \<and> fst (PlanArtifactDataSource_Read read_only_dir []
       \<lparr>FileSize = Known 3, FileName = Known ''artifact'', Id = Null\<rparr> [] []
       \<lparr>Diagnostics = [], State = None\<rparr>) = []
   \<and> State (snd (PlanArtifactDataSource_Read read_only_dir []
       \<lparr>FileSize = Known 3, FileName = Known ''artifact'', Id = Null\<rparr> [] []
       \<lparr>Diagnostics = [], State = None\<rparr>)) = None"
  by (simp add: PlanArtifactDataSource_Read_def PlanArtifact_generate_def
      read_only_dir_def empty_dir_def Let_def)


end
